theory Spec2Isabelle
  imports Complex_Main
begin

section \<open>Python values\<close>

subsection \<open>Floats: IEEE 754 binary64, round to nearest, ties to even\<close>

text \<open>
  A Python float is a binary64 number. A finite one is \<open>Fin m e\<close>, the number
  \<open>m * 2^e\<close>; the arithmetic below returns it with \<open>m\<close> odd (or \<open>Fin 0 0\<close>), so that
  equal results are equal terms. The sign of zero is not kept: the functions modelled
  here only add, multiply, divide and compare, Python raises on a division by either
  zero, and no comparison tells the two zeros apart.
\<close>

datatype pyfloat = Fin int int | PInf | NInf | NaN

datatype pyerr = AttributeError | TypeError | OverflowError | ValueError | ZeroDivisionError | HTTPError nat | URLError

function norm_me :: "int \<Rightarrow> int \<Rightarrow> int \<times> int" where
  "norm_me m e = (if m = 0 then (0, 0) else if even m then norm_me (m div 2) (e + 1) else (m, e))"
  by pat_completeness auto
termination
  by (relation "measure (\<lambda>(m, e). nat \<bar>m\<bar>)") auto

declare norm_me.simps [simp del]

text \<open>The number of binary digits of a positive integer.\<close>

function blen :: "int \<Rightarrow> int" where
  "blen a = (if a \<le> 0 then 0 else 1 + blen (a div 2))"
  by pat_completeness auto
termination
  by (relation "measure nat") auto

declare blen.simps [simp del]

text \<open>\<open>round_half_even n d\<close> is the integer nearest to \<open>n / d\<close> (for \<open>0 \<le> n\<close>, \<open>0 < d\<close>),
  the even one of the two when \<open>n / d\<close> is half way.\<close>

definition round_half_even :: "int \<Rightarrow> int \<Rightarrow> int" where
  "round_half_even n d =
     (let r0 = n div d; rm = n mod d
      in if 2 * rm < d then r0 else if d < 2 * rm then r0 + 1
         else if even r0 then r0 else r0 + 1)"

text \<open>
  \<open>round_ratio p q\<close> is the binary64 number nearest to the rational \<open>p / q\<close> (\<open>0 < q\<close>):
  \<open>e\<close> is the binary exponent of \<open>|p / q|\<close>, \<open>u\<close> the exponent of the last place
  (53 significant bits, subnormal below \<open>2^-1022\<close>), and a result of \<open>2^1024\<close> or more is
  an infinity. This is what Python does with a decimal literal (\<open>0.15\<close> is
  \<open>round_ratio 15 100\<close>) and with the exact result of every arithmetic operation.
\<close>

definition round_ratio :: "int \<Rightarrow> int \<Rightarrow> pyfloat" where
  "round_ratio p q =
     (if p = 0 then Fin 0 0
      else
        let a = \<bar>p\<bar>;
            k = blen a - blen q;
            e = (if q * 2 ^ nat k \<le> a * 2 ^ nat (- k) then k else k - 1);
            u = max (e - 52) (- 1074);
            r = round_half_even (a * 2 ^ nat (- u)) (q * 2 ^ nat u)
        in if 971 < u \<or> (u = 971 \<and> 2 ^ 53 \<le> r) then (if 0 < p then PInf else NInf)
           else (case norm_me (if 0 < p then r else - r) u of (m, e') \<Rightarrow> Fin m e'))"

definition round_scaled :: "int \<Rightarrow> int \<Rightarrow> pyfloat" where
  "round_scaled m e = round_ratio (m * 2 ^ nat e) (2 ^ nat (- e))"

fun fneg :: "pyfloat \<Rightarrow> pyfloat" where
  "fneg (Fin m e) = Fin (- m) e"
| "fneg PInf = NInf"
| "fneg NInf = PInf"
| "fneg NaN = NaN"

fun fadd :: "pyfloat \<Rightarrow> pyfloat \<Rightarrow> pyfloat" where
  "fadd (Fin m1 e1) (Fin m2 e2) =
     (let e = min e1 e2 in round_scaled (m1 * 2 ^ nat (e1 - e) + m2 * 2 ^ nat (e2 - e)) e)"
| "fadd NaN _ = NaN"
| "fadd _ NaN = NaN"
| "fadd PInf NInf = NaN"
| "fadd NInf PInf = NaN"
| "fadd PInf _ = PInf"
| "fadd NInf _ = NInf"
| "fadd _ PInf = PInf"
| "fadd _ NInf = NInf"

definition fsub :: "pyfloat \<Rightarrow> pyfloat \<Rightarrow> pyfloat" where
  "fsub a b = fadd a (fneg b)"

fun fsgn :: "pyfloat \<Rightarrow> int" where
  "fsgn (Fin m e) = sgn m"
| "fsgn PInf = 1"
| "fsgn NInf = - 1"
| "fsgn NaN = 0"

fun fmul :: "pyfloat \<Rightarrow> pyfloat \<Rightarrow> pyfloat" where
  "fmul (Fin m1 e1) (Fin m2 e2) = round_scaled (m1 * m2) (e1 + e2)"
| "fmul NaN _ = NaN"
| "fmul _ NaN = NaN"
| "fmul a b = (if fsgn a * fsgn b = 0 then NaN else if 0 < fsgn a * fsgn b then PInf else NInf)"

text \<open>Python's \<open>/\<close> on floats raises \<open>ZeroDivisionError\<close> when the divisor is zero.\<close>

fun fdiv :: "pyfloat \<Rightarrow> pyfloat \<Rightarrow> pyerr + pyfloat" where
  "fdiv (Fin m1 e1) (Fin m2 e2) =
     (if m2 = 0 then Inl ZeroDivisionError
      else Inr (round_ratio (sgn m2 * m1 * 2 ^ nat (e1 - e2)) (\<bar>m2\<bar> * 2 ^ nat (e2 - e1))))"
| "fdiv NaN (Fin m2 e2) = (if m2 = 0 then Inl ZeroDivisionError else Inr NaN)"
| "fdiv a (Fin m2 e2) =
     (if m2 = 0 then Inl ZeroDivisionError
      else Inr (if 0 < fsgn a * sgn m2 then PInf else NInf))"
| "fdiv _ NaN = Inr NaN"
| "fdiv (Fin m1 e1) _ = Inr (Fin 0 0)"
| "fdiv _ _ = Inr NaN"

text \<open>\<open>flt a b\<close> is Python's \<open>a < b\<close>: false whenever an operand is NaN.\<close>

fun flt :: "pyfloat \<Rightarrow> pyfloat \<Rightarrow> bool" where
  "flt (Fin m1 e1) (Fin m2 e2) =
     (let e = min e1 e2 in m1 * 2 ^ nat (e1 - e) < m2 * 2 ^ nat (e2 - e))"
| "flt NaN _ = False"
| "flt _ NaN = False"
| "flt _ NInf = False"
| "flt PInf _ = False"
| "flt NInf _ = True"
| "flt _ PInf = True"

text \<open>A float against an integer constant: Python compares the two exactly.
  \<open>fgt_int f i\<close> is \<open>f > i\<close> and \<open>fle_int f i\<close> is \<open>f <= i\<close>.\<close>

definition fgt_int :: "pyfloat \<Rightarrow> int \<Rightarrow> bool" where
  "fgt_int f i = flt (Fin i 0) f"

definition fle_int :: "pyfloat \<Rightarrow> int \<Rightarrow> bool" where
  "fle_int f i = (f \<noteq> NaN \<and> \<not> flt (Fin i 0) f)"

fun is_finite :: "pyfloat \<Rightarrow> bool" where
  "is_finite (Fin m e) = True"
| "is_finite _ = False"

text \<open>\<open>bool(f)\<close>: a float is false exactly when it is zero.\<close>

fun ftruthy :: "pyfloat \<Rightarrow> bool" where
  "ftruthy (Fin m e) = (m \<noteq> 0)"
| "ftruthy _ = True"

text \<open>\<open>float(i)\<close> for an integer: the nearest float, \<open>OverflowError\<close> beyond the range.\<close>

definition float_of_int :: "int \<Rightarrow> pyerr + pyfloat" where
  "float_of_int i =
     (case round_ratio i 1 of Fin m e \<Rightarrow> Inr (Fin m e) | _ \<Rightarrow> Inl OverflowError)"

text \<open>\<open>int(f)\<close> for a float: truncation toward zero.\<close>

fun int_of_float :: "pyfloat \<Rightarrow> pyerr + int" where
  "int_of_float (Fin m e) =
     Inr (if 0 \<le> e then m * 2 ^ nat e else sgn m * (\<bar>m\<bar> div 2 ^ nat (- e)))"
| "int_of_float NaN = Inl ValueError"
| "int_of_float _ = Inl OverflowError"

text \<open>\<open>math.ceil(f)\<close>.\<close>

fun ceil_of_float :: "pyfloat \<Rightarrow> pyerr + int" where
  "ceil_of_float (Fin m e) =
     Inr (if 0 \<le> e then m * 2 ^ nat e else - ((- m) div 2 ^ nat (- e)))"
| "ceil_of_float NaN = Inl ValueError"
| "ceil_of_float _ = Inl OverflowError"

subsection \<open>Errors\<close>

text \<open>A computation that may raise returns \<open>Inl\<close> the exception or \<open>Inr\<close> its value.\<close>

definition ebind :: "pyerr + 'a \<Rightarrow> ('a \<Rightarrow> pyerr + 'b) \<Rightarrow> pyerr + 'b" where
  "ebind x f = (case x of Inl e \<Rightarrow> Inl e | Inr v \<Rightarrow> f v)"

subsection \<open>Strings\<close>

text \<open>
  Strings are lists of 8-bit characters: the model is exact for ASCII text.
  \<open>lower\<close> is \<open>str.lower\<close> (on ASCII letters), \<open>startswith\<close> is \<open>str.startswith\<close>.
\<close>

definition lower_char :: "char \<Rightarrow> char" where
  "lower_char c =
     (let n = (of_char c :: nat) in if 65 \<le> n \<and> n \<le> 90 then char_of (n + 32) else c)"

definition lower :: "string \<Rightarrow> string" where
  "lower s = map lower_char s"

definition startswith :: "string \<Rightarrow> string \<Rightarrow> bool" where
  "startswith s p = (take (length p) s = p)"

subsection \<open>Decoded JSON\<close>

text \<open>
  What \<open>json.load\<close> returns: \<open>None\<close>, a bool, an int of any size, a float (the
  decoder also reads \<open>NaN\<close>, \<open>Infinity\<close> and \<open>-Infinity\<close>), a str, a list, or a dict,
  which is kept as its items in order.
\<close>

datatype json =
    JNull
  | JBool bool
  | JInt int
  | JFloat pyfloat
  | JStr string
  | JList "json list"
  | JObj "(string \<times> json) list"

type_synonym pydict = "(string \<times> json) list"

text \<open>\<open>d.get(k)\<close> and \<open>d.get(k, default)\<close>.\<close>

definition dget :: "pydict \<Rightarrow> string \<Rightarrow> json" where
  "dget d k = (case map_of d k of None \<Rightarrow> JNull | Some v \<Rightarrow> v)"

definition dget_default :: "pydict \<Rightarrow> string \<Rightarrow> json \<Rightarrow> json" where
  "dget_default d k v0 = (case map_of d k of None \<Rightarrow> v0 | Some v \<Rightarrow> v)"

text \<open>\<open>bool(v)\<close>.\<close>

fun truthy :: "json \<Rightarrow> bool" where
  "truthy JNull = False"
| "truthy (JBool b) = b"
| "truthy (JInt i) = (i \<noteq> 0)"
| "truthy (JFloat f) = ftruthy f"
| "truthy (JStr s) = (s \<noteq> [])"
| "truthy (JList xs) = (xs \<noteq> [])"
| "truthy (JObj kvs) = (kvs \<noteq> [])"

fun is_list :: "json \<Rightarrow> bool" where
  "is_list (JList xs) = True"
| "is_list _ = False"

text \<open>\<open>for m in v\<close>: a list gives its elements, a dict its keys, a str its characters;
  nothing else can be iterated.\<close>

fun py_iter :: "json \<Rightarrow> pyerr + json list" where
  "py_iter (JList xs) = Inr xs"
| "py_iter (JObj kvs) = Inr (map (\<lambda>kv. JStr (fst kv)) kvs)"
| "py_iter (JStr s) = Inr (map (\<lambda>c. JStr [c]) s)"
| "py_iter _ = Inl TypeError"

section \<open>The numeric normalizer\<close>

fun is_marker_missing :: "json \<Rightarrow> bool" where
  "is_marker_missing JNull = True"
| "is_marker_missing (JStr s) = (startswith s ''__MISSING__'' \<or> startswith s ''__OCR_UNCERTAIN__'')"
| "is_marker_missing _ = False"

text \<open>
  \<open>safe_float\<close>. The first argument \<open>pf\<close> is Python's \<open>float\<close> on a str: \<open>Some\<close> the
  float parsed, \<open>None\<close> when it raises. A bool is an int in Python, so it takes the
  \<open>isinstance(value, (int, float))\<close> branch; \<open>float(value)\<close> stands outside the
  \<open>try\<close>, so its \<open>OverflowError\<close> on a large int leaves the function.
\<close>

fun safe_float :: "(string \<Rightarrow> pyfloat option) \<Rightarrow> json \<Rightarrow> pyerr + pyfloat option" where
  "safe_float pf JNull = Inr None"
| "safe_float pf (JBool b) = Inr (Some (if b then Fin 1 0 else Fin 0 0))"
| "safe_float pf (JInt i) = ebind (float_of_int i) (\<lambda>f. Inr (Some f))"
| "safe_float pf (JFloat f) = Inr (Some f)"
| "safe_float pf (JStr s) =
     (if is_marker_missing (JStr s) then Inr None else Inr (pf (filter (\<lambda>c. c \<noteq> CHR '','') s)))"
| "safe_float pf (JList xs) = Inr None"
| "safe_float pf (JObj kvs) = Inr None"

definition safe_int :: "(string \<Rightarrow> pyfloat option) \<Rightarrow> json \<Rightarrow> pyerr + int option" where
  "safe_int pf v =
     ebind (safe_float pf v)
       (\<lambda>fo. case fo of
          None \<Rightarrow> Inr None
        | Some f \<Rightarrow> (case int_of_float f of Inl err \<Rightarrow> Inr None | Inr i \<Rightarrow> Inr (Some i)))"

section \<open>The price index\<close>

type_synonym price_index = "string \<rightharpoonup> pyfloat"

text \<open>The first of the keys \<open>ks\<close> under which the item holds a str.\<close>

fun first_name :: "pydict \<Rightarrow> string list \<Rightarrow> string option" where
  "first_name item [] = None"
| "first_name item (nk # nks) =
     (case dget item nk of JStr s \<Rightarrow> Some s | _ \<Rightarrow> first_name item nks)"

text \<open>The first of the keys \<open>ks\<close> under which the item holds a number, as a float.\<close>

fun first_price :: "pydict \<Rightarrow> string list \<Rightarrow> pyerr + pyfloat option" where
  "first_price item [] = Inr None"
| "first_price item (pk # pks) =
     (case dget item pk of
        JInt i \<Rightarrow> ebind (float_of_int i) (\<lambda>f. Inr (Some f))
      | JBool b \<Rightarrow> Inr (Some (if b then Fin 1 0 else Fin 0 0))
      | JFloat f \<Rightarrow> Inr (Some f)
      | _ \<Rightarrow> first_price item pks)"

definition name_keys :: "string list" where
  "name_keys = [''name'', ''item_name'']"

definition price_keys :: "string list" where
  "price_keys = [''price'', ''ge_price'', ''avg'', ''value'', ''high'', ''low'']"

text \<open>The (name, price) pair of one entry of a container, if it has both.\<close>

definition extract_pair :: "json \<Rightarrow> pyerr + (string \<times> pyfloat) option" where
  "extract_pair item =
     (case item of
        JObj d \<Rightarrow>
          ebind (first_price d price_keys)
            (\<lambda>price. case (first_name d name_keys, price) of
                        (Some nm, Some p) \<Rightarrow> Inr (Some (nm, p))
                      | _ \<Rightarrow> Inr None)
      | _ \<Rightarrow> Inr None)"

definition store :: "string \<Rightarrow> pyfloat \<Rightarrow> price_index \<Rightarrow> price_index" where
  "store nm p idx = (idx(nm \<mapsto> p))(lower nm \<mapsto> p)"

fun build_items :: "json list \<Rightarrow> price_index \<Rightarrow> pyerr + price_index" where
  "build_items [] idx = Inr idx"
| "build_items (item # items) idx =
     ebind (extract_pair item)
       (\<lambda>r. case r of
          None \<Rightarrow> build_items items idx
        | Some (nm, p) \<Rightarrow> build_items items (store nm p idx))"

text \<open>The containers to read: the dicts under \<open>items\<close>, \<open>data\<close>, \<open>prices\<close>, or the
  dump itself when there is none.\<close>

fun containers_of :: "pydict \<Rightarrow> string list \<Rightarrow> pydict list" where
  "containers_of d [] = []"
| "containers_of d (k # ks) =
     (case dget d k of JObj c \<Rightarrow> c # containers_of d ks | _ \<Rightarrow> containers_of d ks)"

definition containers :: "pydict \<Rightarrow> pydict list" where
  "containers d =
     (let cs = containers_of d [''items'', ''data'', ''prices'']
      in if cs = [] then [d] else cs)"

text \<open>Every entry of every container, in the order the two loops visit them.\<close>

definition entries :: "pydict \<Rightarrow> json list" where
  "entries d = concat (map (map snd) (containers d))"

definition build_name_to_price :: "json \<Rightarrow> pyerr + price_index" where
  "build_name_to_price dump_obj =
     (case dump_obj of
        JObj d \<Rightarrow> build_items (entries d) Map.empty
      | _ \<Rightarrow> Inr Map.empty)"

text \<open>\<open>a or b\<close> on two optional floats: \<open>a\<close> when it is true (present and not
  zero), \<open>b\<close> otherwise.\<close>

fun py_or :: "pyfloat option \<Rightarrow> pyfloat option \<Rightarrow> pyfloat option" where
  "py_or (Some f) b = (if ftruthy f then Some f else b)"
| "py_or None b = b"

text \<open>
  \<open>price_of\<close>. The item name comes from decoded JSON: a false value or a marker gives
  \<open>None\<close>; a str is looked up; a list or dict cannot be a key (\<open>TypeError\<close>); any
  other value is not in the index and has no \<open>lower\<close> (\<open>AttributeError\<close>).
\<close>

definition price_of :: "price_index \<Rightarrow> json \<Rightarrow> pyerr + pyfloat option" where
  "price_of name_to_price item_name =
     (if \<not> truthy item_name \<or> is_marker_missing item_name then Inr None
      else case item_name of
             JStr s \<Rightarrow> Inr (py_or (name_to_price s) (name_to_price (lower s)))
           | JList xs \<Rightarrow> Inl TypeError
           | JObj kvs \<Rightarrow> Inl TypeError
           | _ \<Rightarrow> Inl AttributeError)"

definition price_per_dose_of_output :: "price_index \<Rightarrow> json \<Rightarrow> pyerr + pyfloat option" where
  "price_per_dose_of_output name_to_price output_item_name =
     ebind (price_of name_to_price output_item_name)
       (\<lambda>p4. case p4 of
          None \<Rightarrow> Inr None
        | Some p \<Rightarrow> ebind (fdiv p (Fin 1 2)) (\<lambda>r. Inr (Some r)))"

section \<open>The cost calculator\<close>

text \<open>\<open>float(n)\<close> for the batch multiplier, which is \<open>None\<close> or an int.\<close>

fun float_of_n :: "int option \<Rightarrow> pyerr + pyfloat" where
  "float_of_n None = Inl TypeError"
| "float_of_n (Some i) = float_of_int i"

definition is_dose_scaled :: "pydict \<Rightarrow> bool" where
  "is_dose_scaled m =
     (truthy (dget_default m ''IsDoseScaledFromFour'' (JBool False))
      \<or> truthy (dget_default m ''DoseScaledFromFourPerDose'' (JBool False)))"

text \<open>
  The body of the loop of \<open>compute_material_cost\<close> for one line: \<open>Inr None\<close> where the
  function returns \<open>None\<close>, \<open>Inr (Some c)\<close> where it adds \<open>c\<close> to the total.
\<close>

definition line_cost ::
  "(string \<Rightarrow> pyfloat option) \<Rightarrow> price_index \<Rightarrow> int option \<Rightarrow> json \<Rightarrow> pyerr + pyfloat option" where
  "line_cost pf name_to_price n m =
     (case m of
        JObj d \<Rightarrow>
          ebind (safe_float pf (dget d ''Quantity''))
            (\<lambda>qty. case qty of
               None \<Rightarrow> Inr None
             | Some q \<Rightarrow>
                 if is_marker_missing (dget d ''ItemName'') then Inr None
                 else if is_dose_scaled d then
                   ebind (price_of name_to_price (dget d ''ItemName''))
                     (\<lambda>p4. case p4 of
                        None \<Rightarrow> Inr None
                      | Some p \<Rightarrow>
                          ebind (fdiv p (Fin 1 2))
                            (\<lambda>per_dose. ebind (float_of_n n)
                               (\<lambda>fn. Inr (Some (fmul (fmul per_dose fn) q)))))
                 else
                   ebind (price_of name_to_price (dget d ''ItemName''))
                     (\<lambda>p0. case p0 of
                        None \<Rightarrow> Inr None
                      | Some p \<Rightarrow> Inr (Some (fmul p q))))
      | _ \<Rightarrow> Inl AttributeError)"

fun cost_loop ::
  "(string \<Rightarrow> pyfloat option) \<Rightarrow> price_index \<Rightarrow> int option \<Rightarrow> pyfloat \<Rightarrow> json list
     \<Rightarrow> pyerr + pyfloat option" where
  "cost_loop pf name_to_price n tot [] = Inr (Some tot)"
| "cost_loop pf name_to_price n tot (m # ms) =
     ebind (line_cost pf name_to_price n m)
       (\<lambda>c. case c of
          None \<Rightarrow> Inr None
        | Some x \<Rightarrow> cost_loop pf name_to_price n (fadd tot x) ms)"

definition compute_material_cost ::
  "(string \<Rightarrow> pyfloat option) \<Rightarrow> price_index \<Rightarrow> json list \<Rightarrow> int option \<Rightarrow> pyerr + pyfloat option" where
  "compute_material_cost pf name_to_price mats n = cost_loop pf name_to_price n (Fin 0 0) mats"

section \<open>The recipe valuator\<close>

text \<open>The local variables of \<open>compute_recipe\<close>.\<close>

record frame =
  v_recipe_name :: json
  v_output_item_name :: json
  v_recipe_type :: json
  v_n :: "int option"
  v_goggles_allowed :: bool
  v_xp_per_craft :: "pyfloat option"
  v_xp_per_hour :: "pyfloat option"
  v_base_mats :: json
  v_sec_mats :: json
  v_invalid_reasons :: "string list"
  v_expected_doses :: "pyfloat option"
  v_base_cost :: "pyfloat option"
  v_secondary_cost :: "pyfloat option"
  v_total_cost :: "pyfloat option"
  v_price_per_dose :: "pyfloat option"
  v_revenue_before_tax :: "pyfloat option"
  v_revenue_after_tax :: "pyfloat option"
  v_profit_per_craft :: "pyfloat option"
  v_crafts_per_hour :: "pyfloat option"
  v_gp_per_hour :: "pyfloat option"
  v_valid :: bool
  v_is_alert :: bool

text \<open>The dict \<open>compute_recipe\<close> returns.\<close>

record evaluated =
  RecipeName :: json
  OutputItemName :: json
  RecipeType :: json
  N :: "int option"
  XP_per_craft :: "pyfloat option"
  XP_per_hour :: "pyfloat option"
  crafts_per_hour :: "pyfloat option"
  profit_per_craft :: "pyfloat option"
  gp_per_hour :: "pyfloat option"
  valid :: bool
  invalid_reasons :: "string list"
  GogglesAllowed :: bool

text \<open>The constants of the engine.\<close>

definition GE_TAX :: pyfloat where
  "GE_TAX = round_ratio 2 100"

definition TAX_MULTIPLIER :: pyfloat where
  "TAX_MULTIPLIER = fsub (Fin 1 0) GE_TAX"

definition AMULET_BONUS_DOSES :: pyfloat where
  "AMULET_BONUS_DOSES = round_ratio 15 100"

definition GOGGLES_SECONDARY_MULT :: pyfloat where
  "GOGGLES_SECONDARY_MULT = round_ratio 9 10"

definition ALERT_GP_PER_HOUR :: int where
  "ALERT_GP_PER_HOUR = 3000000"

definition ALERT_XP_PER_HOUR :: int where
  "ALERT_XP_PER_HOUR = 250000"

text \<open>\<open>v or []\<close>.\<close>

definition or_empty_list :: "json \<Rightarrow> json" where
  "or_empty_list v = (if truthy v then v else JList [])"

text \<open>The reads at the head of \<open>compute_recipe\<close>; every other local starts as in
  the source (\<open>None\<close>, the empty list, \<open>False\<close>).\<close>

definition read_fields :: "(string \<Rightarrow> pyfloat option) \<Rightarrow> pydict \<Rightarrow> pyerr + frame" where
  "read_fields pf recipe =
     ebind (safe_int pf (dget recipe ''N''))
       (\<lambda>n. ebind (safe_float pf (dget recipe ''XP_per_craft''))
          (\<lambda>xpc. ebind (safe_float pf (dget recipe ''XP_per_hour''))
             (\<lambda>xph. Inr
                \<lparr> v_recipe_name = dget_default recipe ''RecipeName'' (JStr []),
                  v_output_item_name = dget_default recipe ''OutputItemName'' (JStr []),
                  v_recipe_type = dget_default recipe ''RecipeType'' (JStr []),
                  v_n = n,
                  v_goggles_allowed = truthy (dget_default recipe ''GogglesAllowed'' (JBool False)),
                  v_xp_per_craft = xpc,
                  v_xp_per_hour = xph,
                  v_base_mats = or_empty_list (dget recipe ''BaseMaterials''),
                  v_sec_mats = or_empty_list (dget recipe ''SecondaryMaterials''),
                  v_invalid_reasons = [],
                  v_expected_doses = None,
                  v_base_cost = None,
                  v_secondary_cost = None,
                  v_total_cost = None,
                  v_price_per_dose = None,
                  v_revenue_before_tax = None,
                  v_revenue_after_tax = None,
                  v_profit_per_craft = None,
                  v_crafts_per_hour = None,
                  v_gp_per_hour = None,
                  v_valid = False,
                  v_is_alert = False \<rparr>)))"

text \<open>The conditions of the structural checks.\<close>

definition shape_bad :: "frame \<Rightarrow> bool" where
  "shape_bad f = (\<not> is_list (v_base_mats f) \<or> \<not> is_list (v_sec_mats f))"

definition output_bad :: "frame \<Rightarrow> bool" where
  "output_bad f = is_marker_missing (v_output_item_name f)"

definition n_bad :: "frame \<Rightarrow> bool" where
  "n_bad f = (case v_n f of None \<Rightarrow> True | Some i \<Rightarrow> i \<le> 0)"

definition xp_bad :: "pyfloat option \<Rightarrow> bool" where
  "xp_bad x = (case x of None \<Rightarrow> True | Some f \<Rightarrow> fle_int f 0)"

definition reason_if :: "bool \<Rightarrow> string \<Rightarrow> string list" where
  "reason_if b r = (if b then [r] else [])"

text \<open>The ten \<open>if\<close> statements of lines 222 to 241, in their order.\<close>

definition structural_reasons :: "frame \<Rightarrow> string list" where
  "structural_reasons f =
     reason_if (shape_bad f) ''Invalid materials list shape''
     @ reason_if (output_bad f) ''Missing OutputItemName''
     @ reason_if (shape_bad f) ''Invalid materials list shape''
     @ reason_if (output_bad f) ''Missing OutputItemName''
     @ reason_if (n_bad f) ''Missing/invalid N''
     @ reason_if (xp_bad (v_xp_per_craft f)) ''Missing/invalid XP_per_craft''
     @ reason_if (xp_bad (v_xp_per_hour f)) ''Missing/invalid XP_per_hour''
     @ reason_if (n_bad f) ''Missing/invalid N''
     @ reason_if (xp_bad (v_xp_per_craft f)) ''Missing/invalid XP_per_craft''
     @ reason_if (xp_bad (v_xp_per_hour f)) ''Missing/invalid XP_per_hour''"

definition structural_checks :: "frame \<Rightarrow> frame" where
  "structural_checks f = f\<lparr>v_invalid_reasons := v_invalid_reasons f @ structural_reasons f\<rparr>"

text \<open>
  The early price existence check over one materials list, \<open>kind\<close> being \<open>base\<close> or
  \<open>secondary\<close>: the reason the loop appends before its \<open>break\<close>, if any.
\<close>

fun scan_mats :: "price_index \<Rightarrow> string \<Rightarrow> json list \<Rightarrow> pyerr + string option" where
  "scan_mats name_to_price kind [] = Inr None"
| "scan_mats name_to_price kind (m # ms) =
     (case m of
        JObj d \<Rightarrow>
          if is_marker_missing (dget d ''ItemName'')
          then Inr (Some (''Missing '' @ kind @ '' material ItemName''))
          else (case dget d ''ItemName'' of
                  JStr s \<Rightarrow>
                    if name_to_price (lower s) = None
                    then Inr (Some (''Missing price for '' @ kind @ '' material: '' @ [CHR 0x27] @ s @ [CHR 0x27]))
                    else scan_mats name_to_price kind ms
                | _ \<Rightarrow> Inl AttributeError)
      | _ \<Rightarrow> Inl AttributeError)"

definition scan_stage :: "price_index \<Rightarrow> string \<Rightarrow> json \<Rightarrow> frame \<Rightarrow> pyerr + frame" where
  "scan_stage name_to_price kind mats f =
     (if v_invalid_reasons f = [] then
        ebind (py_iter mats)
          (\<lambda>ms. ebind (scan_mats name_to_price kind ms)
             (\<lambda>r. case r of
                None \<Rightarrow> Inr f
              | Some reason \<Rightarrow> Inr (f\<lparr>v_invalid_reasons := v_invalid_reasons f @ [reason]\<rparr>)))
      else Inr f)"

definition early_checks :: "price_index \<Rightarrow> frame \<Rightarrow> pyerr + frame" where
  "early_checks name_to_price f =
     ebind (scan_stage name_to_price ''base'' (v_base_mats f) f)
       (\<lambda>f1. scan_stage name_to_price ''secondary'' (v_sec_mats f1) f1)"

definition doses_stage :: "frame \<Rightarrow> pyerr + frame" where
  "doses_stage f =
     (case v_n f of
        None \<Rightarrow> Inr f
      | Some i \<Rightarrow>
          ebind (float_of_int i)
            (\<lambda>fn. Inr (f\<lparr>v_expected_doses := Some (fadd fn AMULET_BONUS_DOSES)\<rparr>)))"

definition add_reason_if_none :: "pyfloat option \<Rightarrow> string \<Rightarrow> string list \<Rightarrow> string list" where
  "add_reason_if_none c r rs = (if c = None then rs @ [r] else rs)"

definition costs_stage :: "(string \<Rightarrow> pyfloat option) \<Rightarrow> price_index \<Rightarrow> frame \<Rightarrow> pyerr + frame" where
  "costs_stage pf name_to_price f =
     (if v_invalid_reasons f = [] then
        ebind (py_iter (v_base_mats f))
          (\<lambda>bm. ebind (compute_material_cost pf name_to_price bm (v_n f))
             (\<lambda>bc. ebind (py_iter (v_sec_mats f))
                (\<lambda>sm. ebind (compute_material_cost pf name_to_price sm (v_n f))
                   (\<lambda>sc.
                      let rs = add_reason_if_none sc ''Missing price for secondary materials''
                                 (add_reason_if_none bc ''Missing price for base materials''
                                    (v_invalid_reasons f));
                          tc = (case (bc, sc) of
                                  (Some b, Some s) \<Rightarrow>
                                    if rs = []
                                    then Some (fadd b (fmul s (if v_goggles_allowed f
                                                               then GOGGLES_SECONDARY_MULT
                                                               else Fin 1 0)))
                                    else None
                                | _ \<Rightarrow> None)
                      in Inr (f\<lparr>v_invalid_reasons := rs, v_base_cost := bc,
                                 v_secondary_cost := sc, v_total_cost := tc\<rparr>)))))
      else Inr f)"

definition revenue_stage :: "price_index \<Rightarrow> frame \<Rightarrow> pyerr + frame" where
  "revenue_stage name_to_price f =
     (if v_invalid_reasons f = [] then
        ebind (price_per_dose_of_output name_to_price (v_output_item_name f))
          (\<lambda>ppd. case ppd of
             None \<Rightarrow>
               Inr (f\<lparr>v_invalid_reasons := v_invalid_reasons f @ [''Missing price for output item'']\<rparr>)
           | Some p \<Rightarrow>
               (case v_expected_doses f of
                  None \<Rightarrow> Inl TypeError
                | Some d \<Rightarrow>
                    Inr (f\<lparr>v_price_per_dose := Some p,
                           v_revenue_before_tax := Some (fmul p d),
                           v_revenue_after_tax := Some (fmul (fmul p d) TAX_MULTIPLIER)\<rparr>)))
      else Inr f)"

definition profit_stage :: "frame \<Rightarrow> pyerr + frame" where
  "profit_stage f =
     (if v_invalid_reasons f = [] then
        (case (v_revenue_after_tax f, v_total_cost f, v_xp_per_hour f, v_xp_per_craft f) of
           (Some r, Some c, Some xph, Some xpc) \<Rightarrow>
             ebind (fdiv xph xpc)
               (\<lambda>cph. Inr (f\<lparr>v_profit_per_craft := Some (fsub r c),
                               v_crafts_per_hour := Some cph,
                               v_gp_per_hour := Some (fmul (fsub r c) cph)\<rparr>))
         | _ \<Rightarrow> Inl TypeError)
      else Inr f)"

definition alert_stage :: "frame \<Rightarrow> frame" where
  "alert_stage f =
     f\<lparr>v_valid := (v_invalid_reasons f = []),
       v_is_alert :=
         (case (v_gp_per_hour f, v_xp_per_hour f) of
            (Some g, Some x) \<Rightarrow>
              v_invalid_reasons f = [] \<and> fgt_int g ALERT_GP_PER_HOUR \<and> fgt_int x ALERT_XP_PER_HOUR
          | _ \<Rightarrow> False)\<rparr>"

text \<open>\<open>compute_recipe\<close> up to its \<open>return\<close>: the locals at that point.\<close>

definition compute_recipe_frame ::
  "(string \<Rightarrow> pyfloat option) \<Rightarrow> price_index \<Rightarrow> pydict \<Rightarrow> pyerr + frame" where
  "compute_recipe_frame pf name_to_price recipe =
     ebind (read_fields pf recipe)
       (\<lambda>f0. ebind (early_checks name_to_price (structural_checks f0))
          (\<lambda>f1. ebind (doses_stage f1)
             (\<lambda>f2. ebind (costs_stage pf name_to_price f2)
                (\<lambda>f3. ebind (revenue_stage name_to_price f3)
                   (\<lambda>f4. ebind (profit_stage f4)
                      (\<lambda>f5. Inr (alert_stage f5)))))))"

definition result_dict :: "frame \<Rightarrow> evaluated" where
  "result_dict f =
     \<lparr> RecipeName = v_recipe_name f,
       OutputItemName = v_output_item_name f,
       RecipeType = v_recipe_type f,
       N = v_n f,
       XP_per_craft = v_xp_per_craft f,
       XP_per_hour = v_xp_per_hour f,
       crafts_per_hour = v_crafts_per_hour f,
       profit_per_craft = v_profit_per_craft f,
       gp_per_hour = v_gp_per_hour f,
       valid = v_valid f,
       invalid_reasons = v_invalid_reasons f,
       GogglesAllowed = v_goggles_allowed f \<rparr>"

definition compute_recipe ::
  "(string \<Rightarrow> pyfloat option) \<Rightarrow> price_index \<Rightarrow> pydict \<Rightarrow> pyerr + evaluated" where
  "compute_recipe pf name_to_price recipe =
     ebind (compute_recipe_frame pf name_to_price recipe) (\<lambda>f. Inr (result_dict f))"

section \<open>Ranking\<close>

definition sort_key_of :: "evaluated \<Rightarrow> pyfloat" where
  "sort_key_of r = (case gp_per_hour r of Some v \<Rightarrow> if valid r then v else NInf | None \<Rightarrow> NInf)"

text \<open>
  Python's \<open>sorted(xs, key=k, reverse=True)\<close>: a stable sort into descending keys, the
  elements with equal keys staying in their order in \<open>xs\<close>. Each element is put in front
  of the first one whose key is not greater than its own. Where \<open><\<close> orders the keys
  (no key is NaN) this is the list the contract of \<open>sorted\<close> determines; with a NaN
  key Python's result depends on the steps of its merge sort, which are not modelled.
\<close>

fun insort_desc :: "('a \<Rightarrow> pyfloat) \<Rightarrow> 'a \<Rightarrow> 'a list \<Rightarrow> 'a list" where
  "insort_desc k x [] = [x]"
| "insort_desc k x (y # ys) =
     (if flt (k x) (k y) then y # insort_desc k x ys else x # y # ys)"

definition sorted_reverse :: "('a \<Rightarrow> pyfloat) \<Rightarrow> 'a list \<Rightarrow> 'a list" where
  "sorted_reverse k xs = foldr (insort_desc k) xs []"

fun compute_all ::
  "(string \<Rightarrow> pyfloat option) \<Rightarrow> price_index \<Rightarrow> pydict list \<Rightarrow> pyerr + evaluated list" where
  "compute_all pf name_to_price [] = Inr []"
| "compute_all pf name_to_price (r # rs) =
     ebind (compute_recipe pf name_to_price r)
       (\<lambda>c. ebind (compute_all pf name_to_price rs) (\<lambda>cs. Inr (c # cs)))"

text \<open>The condition of the comprehension that builds Table B.\<close>

definition alert_row :: "evaluated \<Rightarrow> bool" where
  "alert_row r =
     (valid r \<and> gp_per_hour r \<noteq> None \<and> XP_per_hour r \<noteq> None
      \<and> (case (gp_per_hour r, XP_per_hour r) of
            (Some g, Some x) \<Rightarrow> fgt_int g ALERT_GP_PER_HOUR \<and> fgt_int x ALERT_XP_PER_HOUR
          | _ \<Rightarrow> False))"

definition table_a_of :: "evaluated list \<Rightarrow> evaluated list" where
  "table_a_of computed = sorted_reverse sort_key_of computed"

definition table_b_of :: "evaluated list \<Rightarrow> evaluated list" where
  "table_b_of table_a = filter alert_row table_a"

text \<open>The two tables of \<open>main\<close>, from the price index and the recipes left after the
  exclusion filter.\<close>

definition tables ::
  "(string \<Rightarrow> pyfloat option) \<Rightarrow> price_index \<Rightarrow> pydict list
     \<Rightarrow> pyerr + (evaluated list \<times> evaluated list)" where
  "tables pf name_to_price recipes =
     ebind (compute_all pf name_to_price recipes)
       (\<lambda>computed. Inr (table_a_of computed, table_b_of (table_a_of computed)))"

section \<open>Delivery\<close>

text \<open>
  The network is a parameter: \<open>net k\<close> is what the \<open>k\<close>-th call of \<open>urlopen\<close> of the
  run meets. \<open>Ok\<close> is a response read to its end; \<open>HttpFail code body\<close> is an
  \<open>HTTPError\<close> with that status, \<open>body\<close> being what \<open>json.loads\<close> makes of the text
  of its body (\<open>None\<close> when reading, decoding or parsing it raises); \<open>ConnFail\<close> is any
  exception of \<open>urlopen\<close> that is not an \<open>HTTPError\<close>. The run leaves a trace of the
  requests sent, the sleeps and the lines printed.
\<close>

datatype response = Ok | HttpFail nat "json option" | ConnFail

datatype event = Post string | Sleep int | Log nat

definition DISCORD_CONTENT_LIMIT :: nat where
  "DISCORD_CONTENT_LIMIT = 1900"

text \<open>\<open>[content[i:i + n] for i in range(0, len(content), n)]\<close>.\<close>

function chunks_of :: "nat \<Rightarrow> string \<Rightarrow> string list" where
  "chunks_of n s = (if n = 0 \<or> s = [] then [] else take n s # chunks_of n (drop n s))"
  by pat_completeness auto
termination
  by (relation "measure (\<lambda>(n, s). length s)") auto

declare chunks_of.simps [simp del]

text \<open>\<open>float(v)\<close> on a decoded JSON value, \<open>pf\<close> being \<open>float\<close> on a str.\<close>

fun py_float :: "(string \<Rightarrow> pyfloat option) \<Rightarrow> json \<Rightarrow> pyerr + pyfloat" where
  "py_float pf (JInt i) = float_of_int i"
| "py_float pf (JBool b) = Inr (if b then Fin 1 0 else Fin 0 0)"
| "py_float pf (JFloat f) = Inr f"
| "py_float pf (JStr s) = (case pf s of None \<Rightarrow> Inl ValueError | Some f \<Rightarrow> Inr f)"
| "py_float pf _ = Inl TypeError"

text \<open>The delay before the retry: 2 unless the body of the response gives one, in
  which case \<open>max(1, int(math.ceil(float(j.get("retry_after", 2)))))\<close>; any exception
  on the way leaves it at 2.\<close>

definition retry_delay :: "(string \<Rightarrow> pyfloat option) \<Rightarrow> json option \<Rightarrow> int" where
  "retry_delay pf body =
     (case body of
        Some (JObj j) \<Rightarrow>
          (case ebind (py_float pf (dget_default j ''retry_after'' (JInt 2))) ceil_of_float of
             Inr c \<Rightarrow> max 1 c
           | Inl err \<Rightarrow> 2)
      | _ \<Rightarrow> 2)"

definition then_events :: "event list \<Rightarrow> event list \<times> (pyerr + unit) \<Rightarrow> event list \<times> (pyerr + unit)" where
  "then_events es r = (es @ fst r, snd r)"

text \<open>The loop over the chunks, \<open>k\<close> counting the requests made so far. The retry
  stands in the \<open>except\<close> block, outside any \<open>try\<close>: what it raises leaves the function.\<close>

fun send_chunks ::
  "(string \<Rightarrow> pyfloat option) \<Rightarrow> (nat \<Rightarrow> response) \<Rightarrow> nat \<Rightarrow> string list
     \<Rightarrow> event list \<times> (pyerr + unit)" where
  "send_chunks pf net k [] = ([], Inr ())"
| "send_chunks pf net k (c # cs) =
     (case net k of
        Ok \<Rightarrow> then_events [Post c] (send_chunks pf net (k + 1) cs)
      | ConnFail \<Rightarrow> ([Post c], Inl URLError)
      | HttpFail code body \<Rightarrow>
          if code = 429 then
            (case net (k + 1) of
               Ok \<Rightarrow>
                 then_events [Post c, Sleep (retry_delay pf body), Post c]
                   (send_chunks pf net (k + 2) cs)
             | HttpFail code2 body2 \<Rightarrow>
                 ([Post c, Sleep (retry_delay pf body), Post c], Inl (HTTPError code2))
             | ConnFail \<Rightarrow>
                 ([Post c, Sleep (retry_delay pf body), Post c], Inl URLError))
          else ([Post c, Log code], Inr ()))"

definition discord_post ::
  "(string \<Rightarrow> pyfloat option) \<Rightarrow> (nat \<Rightarrow> response) \<Rightarrow> string \<Rightarrow> event list \<times> (pyerr + unit)" where
  "discord_post pf net content =
     send_chunks pf net 0
       (let chunks = chunks_of DISCORD_CONTENT_LIMIT content
        in if chunks = [] then [''(empty)''] else chunks)"

text \<open>The end of \<open>main\<close>: the delivery, then \<open>return 0\<close>. An exception that leaves
  \<open>discord_post\<close> leaves \<open>main\<close>, and the process ends with a traceback and a non-zero
  exit status.\<close>

definition deliver_and_exit ::
  "(string \<Rightarrow> pyfloat option) \<Rightarrow> (nat \<Rightarrow> response) \<Rightarrow> string \<Rightarrow> pyerr + int" where
  "deliver_and_exit pf net content = ebind (snd (discord_post pf net content)) (\<lambda>u. Inr 0)"

section \<open>Notions used in the statements\<close>

text \<open>\<open>exceeds x i\<close>: the optional float \<open>x\<close> is present and greater than \<open>i\<close>.\<close>

fun exceeds :: "pyfloat option \<Rightarrow> int \<Rightarrow> bool" where
  "exceeds None i = False"
| "exceeds (Some f) i = fgt_int f i"





text \<open>The numeric value of a float that is not NaN, for reasoning about the order:
  the rank separates the infinities from the finite numbers.\<close>

fun frank :: "pyfloat \<Rightarrow> int" where
  "frank NInf = - 1"
| "frank PInf = 1"
| "frank _ = 0"

fun fval :: "pyfloat \<Rightarrow> rat" where
  "fval (Fin m e) = of_int m * 2 powi e"
| "fval _ = 0"

text \<open>The locals read from the recipe, and the three economic results.\<close>

definition inputs ::
  "frame \<Rightarrow> int option \<times> pyfloat option \<times> pyfloat option \<times> json \<times> json \<times> json \<times> bool" where
  "inputs f =
     (v_n f, v_xp_per_craft f, v_xp_per_hour f, v_output_item_name f, v_base_mats f,
      v_sec_mats f, v_goggles_allowed f)"

definition economics :: "frame \<Rightarrow> pyfloat option \<times> pyfloat option \<times> pyfloat option" where
  "economics f = (v_profit_per_craft f, v_crafts_per_hour f, v_gp_per_hour f)"

section \<open>Example data\<close>

text \<open>No str parses as a float: the examples hold their numbers as JSON numbers.\<close>

definition pf_none :: "string \<Rightarrow> pyfloat option" where
  "pf_none s = None"

text \<open>A price dump with three items, at 100, 100 and 200.\<close>

definition dump_example :: json where
  "dump_example =
     JObj [(''data'',
            JObj [(''1'', JObj [(''name'', JStr ''Herb''), (''price'', JInt 100)]),
                  (''2'', JObj [(''name'', JStr ''Eye''), (''price'', JInt 100)]),
                  (''3'', JObj [(''name'', JStr ''Brew(4)''), (''price'', JInt 200)])])]"

definition idx_example :: price_index where
  "idx_example =
     store ''Brew(4)'' (Fin 25 3) (store ''Eye'' (Fin 25 2) (store ''Herb'' (Fin 25 2) Map.empty))"

text \<open>The recipe of the worked example: \<open>N = 4\<close>, 50 experience a craft, 2000 an
  hour, base materials for 400, a secondary for 100, no goggles, an output at 50 a
  dose.\<close>

definition recipe_example :: pydict where
  "recipe_example =
     [(''RecipeName'', JStr ''Brew''),
      (''OutputItemName'', JStr ''Brew(4)''),
      (''RecipeType'', JStr ''mix''),
      (''N'', JInt 4),
      (''GogglesAllowed'', JBool False),
      (''XP_per_craft'', JInt 50),
      (''XP_per_hour'', JInt 2000),
      (''BaseMaterials'', JList [JObj [(''ItemName'', JStr ''Herb''), (''Quantity'', JInt 4)]]),
      (''SecondaryMaterials'', JList [JObj [(''ItemName'', JStr ''Eye''), (''Quantity'', JInt 1)]])]"

text \<open>A recipe with no batch multiplier, and one whose output has no price.\<close>

definition recipe_no_n :: pydict where
  "recipe_no_n =
     [(''RecipeName'', JStr ''Broken''),
      (''OutputItemName'', JStr ''Brew(4)''),
      (''N'', JStr ''__MISSING__''),
      (''XP_per_craft'', JInt 50),
      (''XP_per_hour'', JInt 2000)]"

definition recipe_unpriced :: pydict where
  "recipe_unpriced =
     [(''RecipeName'', JStr ''Unpriced''),
      (''OutputItemName'', JStr ''Tonic(4)''),
      (''N'', JInt 4),
      (''XP_per_craft'', JInt 50),
      (''XP_per_hour'', JInt 2000)]"

text \<open>A recipe past both alert thresholds: no materials, 300000 experience an hour.\<close>

definition recipe_alert :: pydict where
  "recipe_alert =
     [(''RecipeName'', JStr ''Rich''),
      (''OutputItemName'', JStr ''Brew(4)''),
      (''N'', JInt 1),
      (''XP_per_craft'', JInt 1),
      (''XP_per_hour'', JInt 300000)]"

text \<open>A recipe whose material costs more than a float can hold: 4 units at
  \<open>2^1023\<close> each, in an index that prices them so.\<close>

definition idx_huge :: price_index where
  "idx_huge = store ''Gem'' (Fin 1 1023) (store ''Brew(4)'' (Fin 1 2) Map.empty)"

definition recipe_huge :: pydict where
  "recipe_huge =
     [(''RecipeName'', JStr ''Costly''),
      (''OutputItemName'', JStr ''Brew(4)''),
      (''N'', JInt 1),
      (''XP_per_craft'', JInt 1),
      (''XP_per_hour'', JInt 1),
      (''BaseMaterials'', JList [JObj [(''ItemName'', JStr ''Gem''), (''Quantity'', JInt 4)]])]"

text \<open>The rows \<open>compute_recipe\<close> returns for these recipes.\<close>

definition row_example :: evaluated where
  "row_example =
     \<lparr>RecipeName = JStr ''Brew'', OutputItemName = JStr ''Brew(4)'',
       RecipeType = JStr ''mix'', N = Some 4,
       XP_per_craft = Some (Fin 25 1), XP_per_hour = Some (Fin 125 4),
       crafts_per_hour = Some (Fin 5 3),
       profit_per_craft = Some (Fin (- 2609360995038003) (- 43)),
       gp_per_hour = Some (Fin (- 5933) 1), valid = True,
       invalid_reasons = [], GogglesAllowed = False\<rparr>"

definition row_broken :: evaluated where
  "row_broken =
     \<lparr>RecipeName = JStr ''Broken'', OutputItemName = JStr ''Brew(4)'',
       RecipeType = JStr [], N = None, XP_per_craft = Some (Fin 25 1),
       XP_per_hour = Some (Fin 125 4), crafts_per_hour = None,
       profit_per_craft = None, gp_per_hour = None, valid = False,
       invalid_reasons = [''Missing/invalid N'', ''Missing/invalid N''],
       GogglesAllowed = False\<rparr>"

definition row_rich :: evaluated where
  "row_rich =
     \<lparr>RecipeName = JStr ''Rich'', OutputItemName = JStr ''Brew(4)'',
       RecipeType = JStr [], N = Some 1, XP_per_craft = Some (Fin 1 0),
       XP_per_hour = Some (Fin 9375 5),
       crafts_per_hour = Some (Fin 9375 5),
       profit_per_craft = Some (Fin 1982639367205683 (- 45)),
       gp_per_hour = Some (Fin 2113125 3), valid = True,
       invalid_reasons = [], GogglesAllowed = False\<rparr>"

definition row_costly :: evaluated where
  "row_costly =
     \<lparr>RecipeName = JStr ''Costly'', OutputItemName = JStr ''Brew(4)'',
       RecipeType = JStr [], N = Some 1, XP_per_craft = Some (Fin 1 0),
       XP_per_hour = Some (Fin 1 0), crafts_per_hour = Some (Fin 1 0),
       profit_per_craft = Some NInf, gp_per_hour = Some NInf,
       valid = True, invalid_reasons = [], GogglesAllowed = False\<rparr>"

section \<open>Basic facts\<close>

lemma ebind_Inr_E:
  assumes "ebind x f = Inr y"
  obtains v where "x = Inr v" and "f v = Inr y"
  using assms by (cases x) (auto simp: ebind_def)

lemma ebind_Inr [simp]: "ebind (Inr v) f = f v"
  by (simp add: ebind_def)

lemma ebind_Inl [simp]: "ebind (Inl e) f = Inl e"
  by (simp add: ebind_def)

section \<open>The stages of the valuation\<close>

text \<open>What each stage leaves as it was.\<close>

lemma scan_stage_keeps:
  assumes "scan_stage idx kind mats f = Inr f'"
  shows "inputs f' = inputs f" and "economics f' = economics f"
    and "v_invalid_reasons f \<noteq> [] \<Longrightarrow> f' = f"
  using assms unfolding scan_stage_def inputs_def economics_def
  by (auto elim!: ebind_Inr_E split: if_splits option.splits)

lemma early_checks_keeps:
  assumes "early_checks idx f = Inr f'"
  shows "inputs f' = inputs f" and "economics f' = economics f"
    and "v_invalid_reasons f \<noteq> [] \<Longrightarrow> f' = f"
proof -
  from assms obtain f1 where
    a: "scan_stage idx ''base'' (v_base_mats f) f = Inr f1" and
    b: "scan_stage idx ''secondary'' (v_sec_mats f1) f1 = Inr f'"
    unfolding early_checks_def by (auto elim!: ebind_Inr_E)
  show "inputs f' = inputs f" and "economics f' = economics f"
    using scan_stage_keeps(1,2)[OF a] scan_stage_keeps(1,2)[OF b] by simp_all
  assume n: "v_invalid_reasons f \<noteq> []"
  with scan_stage_keeps(3)[OF a] have "f1 = f" by simp
  with scan_stage_keeps(3)[OF b] n show "f' = f" by simp
qed

lemma doses_stage_keeps:
  assumes "doses_stage f = Inr f'"
  shows "inputs f' = inputs f" and "economics f' = economics f"
    and "v_invalid_reasons f' = v_invalid_reasons f"
  using assms unfolding doses_stage_def inputs_def economics_def
  by (auto elim!: ebind_Inr_E split: option.splits)

lemma costs_stage_keeps:
  assumes "costs_stage pf idx f = Inr f'"
  shows "inputs f' = inputs f" and "economics f' = economics f"
    and "v_invalid_reasons f \<noteq> [] \<Longrightarrow> f' = f"
  using assms unfolding costs_stage_def inputs_def economics_def
  by (auto elim!: ebind_Inr_E simp: Let_def split: if_splits)

lemma revenue_stage_keeps:
  assumes "revenue_stage idx f = Inr f'"
  shows "inputs f' = inputs f" and "economics f' = economics f"
    and "v_invalid_reasons f \<noteq> [] \<Longrightarrow> f' = f"
  using assms unfolding revenue_stage_def inputs_def economics_def
  by (auto elim!: ebind_Inr_E split: if_splits option.splits)

lemma profit_stage_keeps:
  assumes "profit_stage f = Inr f'"
  shows "inputs f' = inputs f" and "v_invalid_reasons f' = v_invalid_reasons f"
    and "v_invalid_reasons f \<noteq> [] \<Longrightarrow> f' = f"
    and "v_invalid_reasons f = [] \<Longrightarrow> v_gp_per_hour f' \<noteq> None"
  using assms unfolding profit_stage_def inputs_def
  by (auto elim!: ebind_Inr_E split: if_splits option.splits)

lemma alert_stage_keeps:
  shows "inputs (alert_stage f) = inputs f" and "economics (alert_stage f) = economics f"
    and "v_invalid_reasons (alert_stage f) = v_invalid_reasons f"
    and "v_valid (alert_stage f) = (v_invalid_reasons f = [])"
  by (simp_all add: alert_stage_def inputs_def economics_def)

lemma structural_checks_keeps:
  shows "inputs (structural_checks f) = inputs f"
    and "economics (structural_checks f) = economics f"
  by (simp_all add: structural_checks_def inputs_def economics_def)

lemma read_fields_init:
  assumes "read_fields pf recipe = Inr f"
  shows "v_invalid_reasons f = []"
    and "economics f = (None, None, None)"
    and "v_base_mats f = or_empty_list (dget recipe ''BaseMaterials'')"
    and "v_sec_mats f = or_empty_list (dget recipe ''SecondaryMaterials'')"
    and "v_output_item_name f = dget_default recipe ''OutputItemName'' (JStr [])"
    and "safe_int pf (dget recipe ''N'') = Inr (v_n f)"
    and "safe_float pf (dget recipe ''XP_per_craft'') = Inr (v_xp_per_craft f)"
    and "safe_float pf (dget recipe ''XP_per_hour'') = Inr (v_xp_per_hour f)"
    and "v_goggles_allowed f = truthy (dget_default recipe ''GogglesAllowed'' (JBool False))"
  using assms unfolding read_fields_def economics_def
  by (auto elim!: ebind_Inr_E)

text \<open>The run of \<open>compute_recipe\<close>, stage by stage.\<close>

lemma compute_recipe_frame_stages:
  assumes "compute_recipe_frame pf idx recipe = Inr f"
  obtains f0 f1 f2 f3 f4 f5 where
    "read_fields pf recipe = Inr f0"
    "early_checks idx (structural_checks f0) = Inr f1"
    "doses_stage f1 = Inr f2"
    "costs_stage pf idx f2 = Inr f3"
    "revenue_stage idx f3 = Inr f4"
    "profit_stage f4 = Inr f5"
    "f = alert_stage f5"
  using assms unfolding compute_recipe_frame_def by (auto elim!: ebind_Inr_E)

lemma compute_recipe_result:
  assumes "compute_recipe pf idx recipe = Inr r"
  obtains f where "compute_recipe_frame pf idx recipe = Inr f" and "r = result_dict f"
  using assms unfolding compute_recipe_def by (auto elim!: ebind_Inr_E)

text \<open>The fields read at the head are those of the frame at the end.\<close>

lemma frame_inputs:
  assumes "compute_recipe_frame pf idx recipe = Inr f" and "read_fields pf recipe = Inr f0"
  shows "inputs f = inputs f0"
proof -
  from assms(1) obtain g0 f1 f2 f3 f4 f5 where
    s: "read_fields pf recipe = Inr g0"
       "early_checks idx (structural_checks g0) = Inr f1"
       "doses_stage f1 = Inr f2"
       "costs_stage pf idx f2 = Inr f3"
       "revenue_stage idx f3 = Inr f4"
       "profit_stage f4 = Inr f5"
       "f = alert_stage f5"
    by (rule compute_recipe_frame_stages)
  have g: "g0 = f0" using s(1) assms(2) by simp
  show ?thesis
    using early_checks_keeps(1)[OF s(2)] doses_stage_keeps(1)[OF s(3)] costs_stage_keeps(1)[OF s(4)]
      revenue_stage_keeps(1)[OF s(5)] profit_stage_keeps(1)[OF s(6)]
    by (simp add: s(7) g alert_stage_keeps structural_checks_keeps)
qed

text \<open>Validity is the emptiness of the reasons, and the economic fields of an invalid
  frame are those of the start.\<close>

lemma frame_valid_iff:
  assumes "compute_recipe_frame pf idx recipe = Inr f"
  shows "v_valid f = (v_invalid_reasons f = [])"
  using assms by (elim compute_recipe_frame_stages) (simp add: alert_stage_def)

lemma frame_invalid_economics:
  assumes "compute_recipe_frame pf idx recipe = Inr f" and "v_invalid_reasons f \<noteq> []"
  shows "economics f = (None, None, None)"
proof -
  from assms(1) obtain f0 f1 f2 f3 f4 f5 where
    s: "read_fields pf recipe = Inr f0"
       "early_checks idx (structural_checks f0) = Inr f1"
       "doses_stage f1 = Inr f2"
       "costs_stage pf idx f2 = Inr f3"
       "revenue_stage idx f3 = Inr f4"
       "profit_stage f4 = Inr f5"
       "f = alert_stage f5"
    by (rule compute_recipe_frame_stages)
  have e4: "economics f4 = (None, None, None)"
    using read_fields_init(2)[OF s(1)] early_checks_keeps(2)[OF s(2)] doses_stage_keeps(2)[OF s(3)]
      costs_stage_keeps(2)[OF s(4)] revenue_stage_keeps(2)[OF s(5)]
    by (simp add: structural_checks_keeps)
  from assms(2) have "v_invalid_reasons f4 \<noteq> []"
    using profit_stage_keeps(2)[OF s(6)] by (simp add: s(7) alert_stage_keeps)
  with profit_stage_keeps(3)[OF s(6)] have "f5 = f4" by simp
  with e4 show ?thesis by (simp add: s(7) alert_stage_keeps)
qed

lemma frame_valid_gp:
  assumes "compute_recipe_frame pf idx recipe = Inr f" and "v_valid f"
  shows "v_gp_per_hour f \<noteq> None"
proof -
  from assms(1) obtain f0 f1 f2 f3 f4 f5 where
    s: "profit_stage f4 = Inr f5" "f = alert_stage f5"
    by (rule compute_recipe_frame_stages)
  from assms(2) have "v_invalid_reasons f4 = []"
    using profit_stage_keeps(2)[OF s(1)] by (simp add: s(2) alert_stage_keeps)
  with profit_stage_keeps(4)[OF s(1)] show ?thesis by (simp add: s(2) alert_stage_def)
qed

section \<open>Validity and the economic fields\<close>

text \<open>
  Claim C1. Whenever \<open>compute_recipe\<close> returns a result, its validity flag is true
  exactly when its list of reasons is empty; and when the list holds at least one
  reason, the flag is false and crafts-per-hour, profit-per-craft and gp-per-hour are
  all absent (\<open>None\<close>, which is not the number zero).
\<close>

theorem C1_invalid_recipe_has_no_economics:
  assumes "compute_recipe pf idx recipe = Inr r"
  shows "(valid r \<longleftrightarrow> invalid_reasons r = [])
         \<and> (invalid_reasons r \<noteq> [] \<longrightarrow>
              \<not> valid r \<and> crafts_per_hour r = None \<and> profit_per_craft r = None
              \<and> gp_per_hour r = None)"
proof -
  from assms obtain f where f: "compute_recipe_frame pf idx recipe = Inr f" and r: "r = result_dict f"
    by (rule compute_recipe_result)
  have v: "v_valid f = (v_invalid_reasons f = [])" by (rule frame_valid_iff[OF f])
  have "v_invalid_reasons f \<noteq> [] \<Longrightarrow>
          v_crafts_per_hour f = None \<and> v_profit_per_craft f = None \<and> v_gp_per_hour f = None"
    using frame_invalid_economics[OF f] by (simp add: economics_def)
  with v show ?thesis by (simp add: r result_dict_def)
qed

lemma recipe_unpriced_result:
  "compute_recipe pf_none idx_example recipe_unpriced =
     Inr \<lparr>RecipeName = JStr ''Unpriced'', OutputItemName = JStr ''Tonic(4)'',
           RecipeType = JStr [], N = Some 4, XP_per_craft = Some (Fin 25 1),
           XP_per_hour = Some (Fin 125 4), crafts_per_hour = None,
           profit_per_craft = None, gp_per_hour = None, valid = False,
           invalid_reasons = [''Missing price for output item''],
           GogglesAllowed = False\<rparr>"
  by code_simp

theorem C1_witness:
  "\<exists>r. compute_recipe pf_none idx_example recipe_unpriced = Inr r
       \<and> invalid_reasons r = [''Missing price for output item'']
       \<and> \<not> valid r \<and> crafts_per_hour r = None \<and> profit_per_craft r = None
       \<and> gp_per_hour r = None \<and> gp_per_hour r \<noteq> Some (Fin 0 0)"
  using C1_invalid_recipe_has_no_economics[OF recipe_unpriced_result] recipe_unpriced_result
  by simp

section \<open>The repeated structural checks\<close>

lemma count_structural_reasons:
  shows "count_list (structural_reasons f) ''Invalid materials list shape'' = (if shape_bad f then 2 else 0)"
    and "count_list (structural_reasons f) ''Missing OutputItemName'' = (if output_bad f then 2 else 0)"
    and "count_list (structural_reasons f) ''Missing/invalid N'' = (if n_bad f then 2 else 0)"
    and "count_list (structural_reasons f) ''Missing/invalid XP_per_craft'' =
           (if xp_bad (v_xp_per_craft f) then 2 else 0)"
    and "count_list (structural_reasons f) ''Missing/invalid XP_per_hour'' =
           (if xp_bad (v_xp_per_hour f) then 2 else 0)"
  by (simp_all add: structural_reasons_def reason_if_def)

lemma structural_reasons_empty_iff:
  "structural_reasons f = [] \<longleftrightarrow>
     \<not> shape_bad f \<and> \<not> output_bad f \<and> \<not> n_bad f \<and> \<not> xp_bad (v_xp_per_craft f)
     \<and> \<not> xp_bad (v_xp_per_hour f)"
  by (auto simp: structural_reasons_def reason_if_def)

text \<open>Once a structural check has failed, no later stage touches the reasons.\<close>

lemma frame_structural_reasons:
  assumes "compute_recipe_frame pf idx recipe = Inr f" and "read_fields pf recipe = Inr f0"
    and "structural_reasons f0 \<noteq> []"
  shows "v_invalid_reasons f = structural_reasons f0"
proof -
  from assms(1) obtain g0 f1 f2 f3 f4 f5 where
    s: "read_fields pf recipe = Inr g0"
       "early_checks idx (structural_checks g0) = Inr f1"
       "doses_stage f1 = Inr f2"
       "costs_stage pf idx f2 = Inr f3"
       "revenue_stage idx f3 = Inr f4"
       "profit_stage f4 = Inr f5"
       "f = alert_stage f5"
    by (rule compute_recipe_frame_stages)
  have g: "g0 = f0" using s(1) assms(2) by simp
  have r0: "v_invalid_reasons (structural_checks f0) = structural_reasons f0"
    using read_fields_init(1)[OF assms(2)] by (simp add: structural_checks_def)
  have r1: "v_invalid_reasons f1 = structural_reasons f0"
    using early_checks_keeps(3)[OF s(2)] r0 assms(3) by (simp add: g)
  have r2: "v_invalid_reasons f2 = structural_reasons f0"
    using doses_stage_keeps(3)[OF s(3)] r1 by simp
  have r3: "v_invalid_reasons f3 = structural_reasons f0"
    using costs_stage_keeps(3)[OF s(4)] r2 assms(3) by simp
  have r4: "v_invalid_reasons f4 = structural_reasons f0"
    using revenue_stage_keeps(3)[OF s(5)] r3 assms(3) by simp
  have r5: "v_invalid_reasons f5 = structural_reasons f0"
    using profit_stage_keeps(2)[OF s(6)] r4 by simp
  then show ?thesis by (simp add: s(7) alert_stage_keeps)
qed

text \<open>
  Claim C10. In a result of \<open>compute_recipe\<close>, the reason of every structural check
  that fails (the shape of the two materials lists, the output name, \<open>N\<close>,
  \<open>XP_per_craft\<close>, \<open>XP_per_hour\<close>) stands exactly twice in the list of reasons
  returned.
\<close>

theorem C10_structural_reason_appended_twice:
  assumes "compute_recipe pf idx recipe = Inr r"
  shows "(\<not> is_list (or_empty_list (dget recipe ''BaseMaterials''))
            \<or> \<not> is_list (or_empty_list (dget recipe ''SecondaryMaterials''))
          \<longrightarrow> count_list (invalid_reasons r) ''Invalid materials list shape'' = 2)
       \<and> (is_marker_missing (OutputItemName r)
          \<longrightarrow> count_list (invalid_reasons r) ''Missing OutputItemName'' = 2)
       \<and> ((case N r of None \<Rightarrow> True | Some i \<Rightarrow> i \<le> 0)
          \<longrightarrow> count_list (invalid_reasons r) ''Missing/invalid N'' = 2)
       \<and> (xp_bad (XP_per_craft r)
          \<longrightarrow> count_list (invalid_reasons r) ''Missing/invalid XP_per_craft'' = 2)
       \<and> (xp_bad (XP_per_hour r)
          \<longrightarrow> count_list (invalid_reasons r) ''Missing/invalid XP_per_hour'' = 2)"
proof -
  from assms obtain f where f: "compute_recipe_frame pf idx recipe = Inr f" and r: "r = result_dict f"
    by (rule compute_recipe_result)
  from f obtain f0 where f0: "read_fields pf recipe = Inr f0"
    by (rule compute_recipe_frame_stages)
  have i: "inputs f = inputs f0" by (rule frame_inputs[OF f f0])
  have c: "structural_reasons f0 \<noteq> [] \<Longrightarrow> invalid_reasons r = structural_reasons f0"
    using frame_structural_reasons[OF f f0] by (simp add: r result_dict_def)
  have sh: "shape_bad f0 \<longleftrightarrow>
              \<not> is_list (or_empty_list (dget recipe ''BaseMaterials''))
              \<or> \<not> is_list (or_empty_list (dget recipe ''SecondaryMaterials''))"
    using read_fields_init(3,4)[OF f0] by (simp add: shape_bad_def)
  have ou: "output_bad f0 \<longleftrightarrow> is_marker_missing (OutputItemName r)"
    using i by (simp add: output_bad_def r result_dict_def inputs_def)
  have nb: "n_bad f0 \<longleftrightarrow> (case N r of None \<Rightarrow> True | Some i \<Rightarrow> i \<le> 0)"
    using i by (simp add: n_bad_def r result_dict_def inputs_def)
  have xc: "v_xp_per_craft f0 = XP_per_craft r" and xh: "v_xp_per_hour f0 = XP_per_hour r"
    using i by (simp_all add: r result_dict_def inputs_def)
  show ?thesis
    using c count_structural_reasons[of f0] structural_reasons_empty_iff[of f0]
    unfolding sh ou nb xc xh
    by auto
qed

lemma recipe_no_n_result:
  "compute_recipe pf_none idx_example recipe_no_n =
     Inr \<lparr>RecipeName = JStr ''Broken'', OutputItemName = JStr ''Brew(4)'',
           RecipeType = JStr [], N = None, XP_per_craft = Some (Fin 25 1),
           XP_per_hour = Some (Fin 125 4), crafts_per_hour = None,
           profit_per_craft = None, gp_per_hour = None, valid = False,
           invalid_reasons = [''Missing/invalid N'', ''Missing/invalid N''],
           GogglesAllowed = False\<rparr>"
  by code_simp

theorem C10_witness:
  "\<exists>r. compute_recipe pf_none idx_example recipe_no_n = Inr r \<and> N r = None
       \<and> count_list (invalid_reasons r) ''Missing/invalid N'' = 2"
  using C10_structural_reason_appended_twice[OF recipe_no_n_result] recipe_no_n_result
  by simp

section \<open>Alerts and Table B\<close>

lemma alert_stage_flag:
  "v_is_alert (alert_stage f) \<longleftrightarrow>
     v_valid (alert_stage f) \<and> exceeds (v_gp_per_hour (alert_stage f)) 3000000
     \<and> exceeds (v_xp_per_hour (alert_stage f)) 250000"
  by (cases "v_gp_per_hour f"; cases "v_xp_per_hour f")
     (auto simp: alert_stage_def ALERT_GP_PER_HOUR_def ALERT_XP_PER_HOUR_def)

lemma frame_alert_flag:
  assumes "compute_recipe_frame pf idx recipe = Inr f"
  shows "v_is_alert f \<longleftrightarrow>
           v_valid f \<and> exceeds (v_gp_per_hour f) 3000000 \<and> exceeds (v_xp_per_hour f) 250000"
  using assms by (elim compute_recipe_frame_stages) (simp only: alert_stage_flag)

lemma alert_row_iff:
  "alert_row r \<longleftrightarrow> valid r \<and> exceeds (gp_per_hour r) 3000000 \<and> exceeds (XP_per_hour r) 250000"
  by (cases "gp_per_hour r"; cases "XP_per_hour r")
     (auto simp: alert_row_def ALERT_GP_PER_HOUR_def ALERT_XP_PER_HOUR_def)

lemma set_insort_desc: "set (insort_desc k x ys) = insert x (set ys)"
  by (induction ys) auto

lemma set_sorted_reverse: "set (sorted_reverse k xs) = set xs"
  by (induction xs) (auto simp: sorted_reverse_def set_insort_desc)

lemma compute_all_member:
  assumes "compute_all pf idx recipes = Inr cs" and "rc \<in> set recipes"
  shows "\<exists>r. compute_recipe pf idx rc = Inr r \<and> r \<in> set cs"
  using assms
proof (induction recipes arbitrary: cs)
  case Nil
  then show ?case by simp
next
  case (Cons a as)
  from Cons.prems(1) obtain c cs' where
    c: "compute_recipe pf idx a = Inr c" and cs': "compute_all pf idx as = Inr cs'" and
    e: "cs = c # cs'"
    by (auto elim!: ebind_Inr_E)
  show ?case
  proof (cases "rc = a")
    case True
    then show ?thesis using c e by simp
  next
    case False
    with Cons.prems(2) have "rc \<in> set as" by simp
    from Cons.IH[OF cs' this] show ?thesis using e by auto
  qed
qed

lemma tables_result:
  assumes "tables pf idx recipes = Inr (ta, tb)"
  obtains computed where "compute_all pf idx recipes = Inr computed"
    and "ta = table_a_of computed" and "tb = table_b_of ta"
  using assms unfolding tables_def by (auto elim!: ebind_Inr_E)

text \<open>
  Claim C3. The alert flag that \<open>compute_recipe\<close> computes is true exactly when the
  recipe is valid, its gp-per-hour is above 3,000,000 and its experience-per-hour is
  above 250,000. Table B is the list of the rows of Table A that meet these three
  conditions, in the order of Table A; and a recipe's row stands in Table B exactly when
  its alert flag is true.
\<close>

theorem C3_alert_flag_and_table_b:
  shows "(compute_recipe_frame pf idx recipe = Inr f \<longrightarrow>
            (v_is_alert f \<longleftrightarrow>
               v_valid f \<and> exceeds (v_gp_per_hour f) 3000000 \<and> exceeds (v_xp_per_hour f) 250000))
       \<and> (tables pf idx recipes = Inr (ta, tb) \<longrightarrow>
            tb = filter (\<lambda>r. valid r \<and> exceeds (gp_per_hour r) 3000000
                              \<and> exceeds (XP_per_hour r) 250000) ta
            \<and> (\<forall>rc \<in> set recipes. \<forall>g. compute_recipe_frame pf idx rc = Inr g \<longrightarrow>
                  (result_dict g \<in> set tb \<longleftrightarrow> v_is_alert g)))"
proof (intro conjI impI)
  assume "compute_recipe_frame pf idx recipe = Inr f"
  then show "v_is_alert f \<longleftrightarrow>
      v_valid f \<and> exceeds (v_gp_per_hour f) 3000000 \<and> exceeds (v_xp_per_hour f) 250000"
    by (rule frame_alert_flag)
next
  assume t: "tables pf idx recipes = Inr (ta, tb)"
  then obtain computed where c: "compute_all pf idx recipes = Inr computed"
    and ta: "ta = table_a_of computed" and tb: "tb = table_b_of ta"
    by (rule tables_result)
  show "tb = filter (\<lambda>r. valid r \<and> exceeds (gp_per_hour r) 3000000
                           \<and> exceeds (XP_per_hour r) 250000) ta"
    using alert_row_iff by (simp add: tb table_b_of_def cong: filter_cong)
  show "\<forall>rc \<in> set recipes. \<forall>g. compute_recipe_frame pf idx rc = Inr g \<longrightarrow>
          (result_dict g \<in> set tb \<longleftrightarrow> v_is_alert g)"
  proof (intro ballI allI impI)
    fix rc g
    assume rc: "rc \<in> set recipes" and g: "compute_recipe_frame pf idx rc = Inr g"
    from compute_all_member[OF c rc] g have "result_dict g \<in> set computed"
      by (auto simp: compute_recipe_def)
    then have "result_dict g \<in> set ta" by (simp add: ta table_a_of_def set_sorted_reverse)
    moreover have "alert_row (result_dict g) \<longleftrightarrow> v_is_alert g"
      using frame_alert_flag[OF g] by (simp add: alert_row_iff result_dict_def)
    ultimately show "result_dict g \<in> set tb \<longleftrightarrow> v_is_alert g"
      by (simp add: tb table_b_of_def)
  qed
qed

lemma recipe_alert_frame:
  "compute_recipe_frame pf_none idx_example recipe_alert =
     Inr \<lparr>v_recipe_name = JStr ''Rich'', v_output_item_name = JStr ''Brew(4)'',
           v_recipe_type = JStr [], v_n = Some 1, v_goggles_allowed = False,
           v_xp_per_craft = Some (Fin 1 0), v_xp_per_hour = Some (Fin 9375 5),
           v_base_mats = JList [], v_sec_mats = JList [],
           v_invalid_reasons = [],
           v_expected_doses = Some (Fin 2589569785738035 (- 51)),
           v_base_cost = Some (Fin 0 0), v_secondary_cost = Some (Fin 0 0),
           v_total_cost = Some (Fin 0 0), v_price_per_dose = Some (Fin 25 1),
           v_revenue_before_tax = Some (Fin 8092405580431359 (- 47)),
           v_revenue_after_tax = Some (Fin 1982639367205683 (- 45)),
           v_profit_per_craft = Some (Fin 1982639367205683 (- 45)),
           v_crafts_per_hour = Some (Fin 9375 5),
           v_gp_per_hour = Some (Fin 2113125 3), v_valid = True,
           v_is_alert = True\<rparr>"
  by code_simp

lemma tables_example:
  "tables pf_none idx_example [recipe_example, recipe_alert] =
     Inr ([\<lparr>RecipeName = JStr ''Rich'', OutputItemName = JStr ''Brew(4)'',
             RecipeType = JStr [], N = Some 1, XP_per_craft = Some (Fin 1 0),
             XP_per_hour = Some (Fin 9375 5),
             crafts_per_hour = Some (Fin 9375 5),
             profit_per_craft = Some (Fin 1982639367205683 (- 45)),
             gp_per_hour = Some (Fin 2113125 3), valid = True,
             invalid_reasons = [], GogglesAllowed = False\<rparr>,
           \<lparr>RecipeName = JStr ''Brew'', OutputItemName = JStr ''Brew(4)'',
             RecipeType = JStr ''mix'', N = Some 4,
             XP_per_craft = Some (Fin 25 1), XP_per_hour = Some (Fin 125 4),
             crafts_per_hour = Some (Fin 5 3),
             profit_per_craft = Some (Fin (- 2609360995038003) (- 43)),
             gp_per_hour = Some (Fin (- 5933) 1), valid = True,
             invalid_reasons = [], GogglesAllowed = False\<rparr>],
          [\<lparr>RecipeName = JStr ''Rich'', OutputItemName = JStr ''Brew(4)'',
             RecipeType = JStr [], N = Some 1, XP_per_craft = Some (Fin 1 0),
             XP_per_hour = Some (Fin 9375 5),
             crafts_per_hour = Some (Fin 9375 5),
             profit_per_craft = Some (Fin 1982639367205683 (- 45)),
             gp_per_hour = Some (Fin 2113125 3), valid = True,
             invalid_reasons = [], GogglesAllowed = False\<rparr>])"
  by code_simp

theorem C3_witness:
  "\<exists>f ta tb. compute_recipe_frame pf_none idx_example recipe_alert = Inr f
     \<and> tables pf_none idx_example [recipe_example, recipe_alert] = Inr (ta, tb)
     \<and> v_is_alert f \<and> v_valid f \<and> exceeds (v_gp_per_hour f) 3000000
     \<and> exceeds (v_xp_per_hour f) 250000
     \<and> length ta = 2 \<and> result_dict f \<in> set tb
     \<and> tb = filter (\<lambda>r. valid r \<and> exceeds (gp_per_hour r) 3000000
                         \<and> exceeds (XP_per_hour r) 250000) ta"
proof -
  obtain f where f: "compute_recipe_frame pf_none idx_example recipe_alert = Inr f"
    and a: "v_is_alert f"
    using recipe_alert_frame by simp
  obtain ta tb where t: "tables pf_none idx_example [recipe_example, recipe_alert] = Inr (ta, tb)"
    and l: "length ta = 2"
    using tables_example by simp
  note th = C3_alert_flag_and_table_b[of pf_none idx_example recipe_alert f
      "[recipe_example, recipe_alert]" ta tb]
  from th f a have p1: "v_valid f \<and> exceeds (v_gp_per_hour f) 3000000
      \<and> exceeds (v_xp_per_hour f) 250000"
    by blast
  from th t have p2: "tb = filter (\<lambda>r. valid r \<and> exceeds (gp_per_hour r) 3000000
                            \<and> exceeds (XP_per_hour r) 250000) ta"
    by blast
  from th t have "\<forall>rc \<in> set [recipe_example, recipe_alert].
      \<forall>g. compute_recipe_frame pf_none idx_example rc = Inr g \<longrightarrow>
        (result_dict g \<in> set tb \<longleftrightarrow> v_is_alert g)"
    by blast
  then have "\<forall>g. compute_recipe_frame pf_none idx_example recipe_alert = Inr g \<longrightarrow>
        (result_dict g \<in> set tb \<longleftrightarrow> v_is_alert g)"
    by simp
  with f a have p3: "result_dict f \<in> set tb" by blast
  from f t a l p1 p2 p3 show ?thesis by blast
qed

section \<open>The material cost\<close>


lemma price_of_not_raising:
  "price_of idx JNull = Inr None"
  "price_of idx (JStr s) =
     Inr (if s = [] \<or> is_marker_missing (JStr s) then None else py_or (idx s) (idx (lower s)))"
  by (simp_all add: price_of_def)










section \<open>The price lookup\<close>

text \<open>What \<open>price_of\<close> does on a str: the exact-case price when it is present and not
  zero, the lowercase entry otherwise.\<close>

lemma price_of_nonzero_index:
  assumes "\<forall>k f. idx k = Some f \<longrightarrow> ftruthy f"
  shows "price_of idx (JStr s) =
           Inr (if s = [] \<or> is_marker_missing (JStr s) then None
                else case idx s of Some f \<Rightarrow> Some f | None \<Rightarrow> idx (lower s))"
proof (cases "idx s")
  case None
  then show ?thesis by (simp add: price_of_not_raising)
next
  case (Some f)
  with assms have "ftruthy f" by blast
  with Some show ?thesis by (simp add: price_of_not_raising)
qed

text \<open>
  Claim C6. \<open>price_of\<close> is to return the price under the exact-case name whenever that
  key is in the index, and to be absent only when the name is empty, a marker, or in
  the index in neither case. The code returns \<open>name_to_price.get(item_name) or
  name_to_price.get(item_name.lower())\<close>, and \<open>or\<close> takes a price of zero for a missing
  one: with \<open>Foo\<close> at 0 alone in the index the result is absent, and with \<open>Foo\<close> at 0 and
  \<open>foo\<close> at 5 (the index \<open>build_name_to_price\<close> makes of a dump that lists the two in
  this order) the result is 5, the price of the lowercase entry.
\<close>

theorem C6_zero_price_taken_for_missing:
  "price_of [''Foo'' \<mapsto> Fin 0 0] (JStr ''Foo'') = Inr None
   \<and> price_of [''Foo'' \<mapsto> Fin 0 0, ''foo'' \<mapsto> Fin 5 0] (JStr ''Foo'') = Inr (Some (Fin 5 0))
   \<and> (case build_name_to_price
             (JObj [(''data'',
                     JObj [(''1'', JObj [(''name'', JStr ''Foo''), (''price'', JInt 0)]),
                           (''2'', JObj [(''name'', JStr ''foo''), (''price'', JInt 5)])])]) of
         Inr idx \<Rightarrow> idx ''Foo'' = Some (Fin 0 0)
                    \<and> price_of idx (JStr ''Foo'') = Inr (Some (Fin 5 0))
       | Inl err \<Rightarrow> False)"
  by code_simp

section \<open>The numeric normalizer\<close>

text \<open>
  Claim C7, as stated: for every raw value \<open>safe_float\<close> returns a finite number or
  absent. It does not: the JSON decoder reads \<open>Infinity\<close> as the float infinity, and
  \<open>safe_float\<close> returns a float as it is.
\<close>

theorem C7_counterexample:
  "\<not> (\<forall>pf v. \<exists>r. safe_float pf v = Inr r \<and> (case r of None \<Rightarrow> True | Some f \<Rightarrow> is_finite f))"
proof
  assume "\<forall>pf v. \<exists>r. safe_float pf v = Inr r \<and> (case r of None \<Rightarrow> True | Some f \<Rightarrow> is_finite f)"
  then have "\<exists>r. safe_float pf_none (JFloat PInf) = Inr r
               \<and> (case r of None \<Rightarrow> True | Some f \<Rightarrow> is_finite f)"
    by blast
  then show False by simp
qed

lemma float_of_int_finite:
  assumes "float_of_int i = Inr g"
  shows "is_finite g"
  using assms unfolding float_of_int_def by (cases "round_ratio i 1") auto

lemma float_of_int_error:
  assumes "float_of_int i = Inl err"
  shows "err = OverflowError"
  using assms unfolding float_of_int_def by (cases "round_ratio i 1") auto

text \<open>
  Claim C7, amended. \<open>safe_float\<close> returns absent for \<open>None\<close> and for a str with a
  marker prefix; a float as it is (so an infinity or a NaN stays one); a bool as 1.0 or
  0.0; an int that a float can hold as that finite float; any other str as what
  \<open>float\<close> makes of it once the commas are removed, absent when \<open>float\<close> raises; a list
  or a dict as absent. It returns for every value but an int beyond the range of a
  float, and a result that is not finite comes from a float that was not, or from a
  str that \<open>float\<close> reads as one.
\<close>

theorem C7_safe_float_cases:
  shows "(is_marker_missing v \<longrightarrow> safe_float pf v = Inr None)
       \<and> safe_float pf (JFloat f) = Inr (Some f)
       \<and> safe_float pf (JBool b) = Inr (Some (if b then Fin 1 0 else Fin 0 0))
       \<and> (float_of_int i = Inr g \<longrightarrow> safe_float pf (JInt i) = Inr (Some g) \<and> is_finite g)
       \<and> (\<not> is_marker_missing (JStr s) \<longrightarrow>
            safe_float pf (JStr s) = Inr (pf (filter (\<lambda>c. c \<noteq> CHR '','') s)))
       \<and> safe_float pf (JList xs) = Inr None
       \<and> safe_float pf (JObj kvs) = Inr None
       \<and> ((\<forall>j. v = JInt j \<longrightarrow> float_of_int j \<noteq> Inl OverflowError) \<longrightarrow>
            (\<exists>r. safe_float pf v = Inr r))
       \<and> (\<forall>x. safe_float pf v = Inr (Some x) \<and> \<not> is_finite x \<longrightarrow>
              v = JFloat x \<or> (\<exists>t. v = JStr t \<and> pf (filter (\<lambda>c. c \<noteq> CHR '','') t) = Some x))"
proof (intro conjI impI allI)
  assume "is_marker_missing v"
  then show "safe_float pf v = Inr None" by (cases v) simp_all
next
  show "safe_float pf (JFloat f) = Inr (Some f)" by simp
  show "safe_float pf (JBool b) = Inr (Some (if b then Fin 1 0 else Fin 0 0))" by simp
  show "safe_float pf (JList xs) = Inr None" by simp
  show "safe_float pf (JObj kvs) = Inr None" by simp
next
  assume g: "float_of_int i = Inr g"
  then show "safe_float pf (JInt i) = Inr (Some g)" by simp
  from g show "is_finite g" by (rule float_of_int_finite)
next
  assume "\<not> is_marker_missing (JStr s)"
  then show "safe_float pf (JStr s) = Inr (pf (filter (\<lambda>c. c \<noteq> CHR '','') s))"
    by (simp del: is_marker_missing.simps)
next
  assume h: "\<forall>j. v = JInt j \<longrightarrow> float_of_int j \<noteq> Inl OverflowError"
  show "\<exists>r. safe_float pf v = Inr r"
  proof (cases v)
    case (JInt j)
    with h have "float_of_int j \<noteq> Inl OverflowError" by simp
    then obtain g where "float_of_int j = Inr g"
      using float_of_int_error[of j] by (cases "float_of_int j") auto
    with JInt show ?thesis by simp
  qed simp_all
next
  fix x
  assume a: "safe_float pf v = Inr (Some x) \<and> \<not> is_finite x"
  show "v = JFloat x \<or> (\<exists>t. v = JStr t \<and> pf (filter (\<lambda>c. c \<noteq> CHR '','') t) = Some x)"
  proof (cases v)
    case (JInt j)
    with a obtain g where "float_of_int j = Inr g" and "x = g"
      by (auto elim!: ebind_Inr_E)
    with a float_of_int_finite[of j g] show ?thesis by simp
  next
    case (JBool b)
    with a show ?thesis by (cases b) auto
  next
    case (JStr t)
    with a show ?thesis by (auto split: if_splits)
  qed (use a in auto)
qed

lemma float_of_four: "float_of_int 4 = Inr (Fin 1 2)"
  by code_simp

theorem C7_witness:
  "safe_float (\<lambda>t. if t = ''1234.5'' then Some (Fin 2469 (- 1)) else None) (JStr ''1,234.5'')
     = Inr (Some (Fin 2469 (- 1)))
   \<and> safe_float pf_none (JStr ''__MISSING__ qty'') = Inr None
   \<and> safe_float pf_none (JInt 4) = Inr (Some (Fin 1 2)) \<and> is_finite (Fin 1 2)
   \<and> safe_float pf_none (JFloat NaN) = Inr (Some NaN)"
  using C7_safe_float_cases[of "JStr ''__MISSING__ qty''" pf_none NaN True 4 "Fin 1 2"]
    C7_safe_float_cases[of JNull "\<lambda>t. if t = ''1234.5'' then Some (Fin 2469 (- 1)) else None"
      NaN True 4 "Fin 1 2" "''1,234.5''"]
    float_of_four
  by (simp add: startswith_def)

section \<open>The price index\<close>

lemma store_both:
  "(store nm p idx) nm = Some p" and "(store nm p idx) (lower nm) = Some p"
  by (simp_all add: store_def)

lemma store_other: "k \<noteq> nm \<Longrightarrow> k \<noteq> lower nm \<Longrightarrow> (store nm p idx) k = idx k"
  by (simp add: store_def)

lemma dom_store: "dom (store nm p idx) = insert nm (insert (lower nm) (dom idx))"
  by (auto simp: store_def)

text \<open>The loop only adds keys, and adds both keys of every pair it extracts.\<close>

lemma build_items_dom:
  assumes "build_items items idx = Inr idx'"
  shows "dom idx \<subseteq> dom idx'"
    and "\<forall>item \<in> set items. \<forall>nm p. extract_pair item = Inr (Some (nm, p)) \<longrightarrow>
           nm \<in> dom idx' \<and> lower nm \<in> dom idx'"
  using assms
proof (induction items arbitrary: idx)
  case Nil
  {
    case 1
    then show ?case by simp
  next
    case 2
    then show ?case by simp
  }
next
  case (Cons item items)
  {
    case 1
    from 1 obtain r where r: "extract_pair item = Inr r" and
      k: "(case r of None \<Rightarrow> build_items items idx
                   | Some (nm, p) \<Rightarrow> build_items items (store nm p idx)) = Inr idx'"
      by (auto elim!: ebind_Inr_E)
    show ?case
    proof (cases r)
      case None
      with k Cons.IH(1) show ?thesis by simp
    next
      case (Some np)
      obtain nm p where np: "np = (nm, p)" by (cases np)
      with Some k have "build_items items (store nm p idx) = Inr idx'" by simp
      from Cons.IH(1)[OF this] show ?thesis by (auto simp: dom_store)
    qed
  next
    case 2
    from 2 obtain r where r: "extract_pair item = Inr r" and
      k: "(case r of None \<Rightarrow> build_items items idx
                   | Some (nm, p) \<Rightarrow> build_items items (store nm p idx)) = Inr idx'"
      by (auto elim!: ebind_Inr_E)
    show ?case
    proof (cases r)
      case None
      with k Cons.IH(2) r show ?thesis by simp
    next
      case (Some np)
      obtain nm p where np: "np = (nm, p)" by (cases np)
      with Some k have b: "build_items items (store nm p idx) = Inr idx'" by simp
      from Cons.IH(1)[OF b] have "nm \<in> dom idx'" and "lower nm \<in> dom idx'"
        by (auto simp: dom_store)
      with Cons.IH(2)[OF b] r Some np show ?thesis by auto
    qed
  }
qed

lemma build_items_Cons_E:
  assumes "build_items (item # items) idx = Inr idx'"
  obtains "extract_pair item = Inr None" and "build_items items idx = Inr idx'"
  | nm p where "extract_pair item = Inr (Some (nm, p))"
      and "build_items items (store nm p idx) = Inr idx'"
proof -
  from assms obtain r where r: "extract_pair item = Inr r" and
    k: "(case r of None \<Rightarrow> build_items items idx
                 | Some (nm, p) \<Rightarrow> build_items items (store nm p idx)) = Inr idx'"
    by (auto elim!: ebind_Inr_E)
  show thesis
  proof (cases r)
    case None
    with r k that(1) show ?thesis by simp
  next
    case (Some np)
    obtain nm p where "np = (nm, p)" by (cases np)
    with Some r k that(2) show ?thesis by simp
  qed
qed

text \<open>The entries that do not write a key leave what the index holds under it.\<close>

lemma build_items_keeps:
  assumes "build_items items idx = Inr idx'"
    and "\<forall>item \<in> set items. \<forall>nm p. extract_pair item = Inr (Some (nm, p)) \<longrightarrow>
           nm \<noteq> k \<and> lower nm \<noteq> k"
  shows "idx' k = idx k"
  using assms
proof (induction items arbitrary: idx)
  case Nil
  then show ?case by simp
next
  case (Cons item items)
  from Cons.prems(2) have rest:
    "\<forall>item \<in> set items. \<forall>nm p. extract_pair item = Inr (Some (nm, p)) \<longrightarrow>
       nm \<noteq> k \<and> lower nm \<noteq> k"
    by simp
  from Cons.prems(1) show ?case
  proof (cases rule: build_items_Cons_E)
    case 1
    from Cons.IH[OF 1(2) rest] show ?thesis .
  next
    case (2 nm p)
    from Cons.prems(2) 2(1) have "k \<noteq> nm" and "k \<noteq> lower nm" by auto
    then have "(store nm p idx) k = idx k" by (rule store_other)
    with Cons.IH[OF 2(2) rest] show ?thesis by simp
  qed
qed

text \<open>The price under a key is the price of the last entry that writes the key.\<close>

lemma build_items_last_writer:
  assumes "build_items (before @ item # after) idx = Inr idx'"
    and "extract_pair item = Inr (Some (nm, p))"
    and "k = nm \<or> k = lower nm"
    and "\<forall>item' \<in> set after. \<forall>nm' p'. extract_pair item' = Inr (Some (nm', p')) \<longrightarrow>
           nm' \<noteq> k \<and> lower nm' \<noteq> k"
  shows "idx' k = Some p"
  using assms(1)
proof (induction before arbitrary: idx)
  case Nil
  then have "build_items (item # after) idx = Inr idx'" by simp
  then show ?case
  proof (cases rule: build_items_Cons_E)
    case 1
    with assms(2) show ?thesis by simp
  next
    case (2 nm0 p0)
    with assms(2) have b: "build_items after (store nm p idx) = Inr idx'" by simp
    from build_items_keeps[OF b assms(4)] have "idx' k = (store nm p idx) k" .
    with assms(3) show ?thesis by (auto simp: store_def)
  qed
next
  case (Cons a before)
  then have "build_items (a # (before @ item # after)) idx = Inr idx'" by simp
  then show ?case
  proof (cases rule: build_items_Cons_E)
    case 1
    from Cons.IH[OF 1(2)] show ?thesis .
  next
    case (2 nm0 p0)
    from Cons.IH[OF 2(2)] show ?thesis .
  qed
qed

text \<open>Whatever the index holds under a key was there at the start and no entry writes
  the key, or it is the price of the last entry that writes the key.\<close>

lemma build_items_origin:
  assumes "build_items items idx = Inr idx'" and "idx' k = Some q"
  shows "(idx k = Some q
          \<and> (\<forall>item \<in> set items. \<forall>nm p. extract_pair item = Inr (Some (nm, p)) \<longrightarrow>
                nm \<noteq> k \<and> lower nm \<noteq> k))
       \<or> (\<exists>before item after nm. items = before @ item # after
            \<and> extract_pair item = Inr (Some (nm, q)) \<and> (k = nm \<or> k = lower nm)
            \<and> (\<forall>item' \<in> set after. \<forall>nm' p'. extract_pair item' = Inr (Some (nm', p')) \<longrightarrow>
                  nm' \<noteq> k \<and> lower nm' \<noteq> k))"
  using assms
proof (induction items arbitrary: idx)
  case Nil
  then show ?case by simp
next
  case (Cons a items)
  let ?quiet = "\<lambda>xs. \<forall>item \<in> set xs. \<forall>nm p. extract_pair item = Inr (Some (nm, p)) \<longrightarrow>
                  nm \<noteq> k \<and> lower nm \<noteq> k"
  let ?last = "\<lambda>xs. \<exists>before item after nm. xs = before @ item # after
            \<and> extract_pair item = Inr (Some (nm, q)) \<and> (k = nm \<or> k = lower nm)
            \<and> ?quiet after"
  have lift: "?last (a # items)" if "?last items"
  proof -
    from that obtain before item after nm where
      "items = before @ item # after" and rest: "extract_pair item = Inr (Some (nm, q))"
      "k = nm \<or> k = lower nm" "?quiet after"
      by blast
    then have "a # items = (a # before) @ item # after" by simp
    with rest show ?thesis by blast
  qed
  from Cons.prems(1) show ?case
  proof (cases rule: build_items_Cons_E)
    case 1
    from Cons.IH[OF 1(2) Cons.prems(2)] have "(idx k = Some q \<and> ?quiet items) \<or> ?last items" .
    then show ?thesis
    proof
      assume "idx k = Some q \<and> ?quiet items"
      with 1(1) have "idx k = Some q \<and> ?quiet (a # items)" by simp
      then show ?thesis by (rule disjI1)
    next
      assume "?last items"
      from lift[OF this] show ?thesis by (rule disjI2)
    qed
  next
    case (2 nm0 p0)
    from Cons.IH[OF 2(2) Cons.prems(2)]
    have "((store nm0 p0 idx) k = Some q \<and> ?quiet items) \<or> ?last items" .
    then show ?thesis
    proof
      assume s: "(store nm0 p0 idx) k = Some q \<and> ?quiet items"
      show ?thesis
      proof (cases "k = nm0 \<or> k = lower nm0")
        case True
        with s have "q = p0" by (auto simp: store_def split: if_splits)
        with 2(1) have e: "extract_pair a = Inr (Some (nm0, q))" by simp
        have "a # items = [] @ a # items" by simp
        with e True s have "?last (a # items)" by blast
        then show ?thesis by (rule disjI2)
      next
        case False
        then have "(store nm0 p0 idx) k = idx k" by (simp add: store_other)
        with s False 2(1) have "idx k = Some q \<and> ?quiet (a # items)" by auto
        then show ?thesis by (rule disjI1)
      qed
    next
      assume "?last items"
      from lift[OF this] show ?thesis by (rule disjI2)
    qed
  qed
qed

text \<open>The loop ends normally when every entry gives a pair or none.\<close>

lemma build_items_returns:
  assumes "\<forall>item \<in> set items. \<exists>r. extract_pair item = Inr r"
  shows "\<exists>idx'. build_items items idx = Inr idx'"
  using assms
proof (induction items arbitrary: idx)
  case Nil
  then show ?case by simp
next
  case (Cons a items)
  then obtain r where r: "extract_pair a = Inr r" by auto
  from Cons have ih: "\<exists>idx'. build_items items i = Inr idx'" for i by simp
  show ?case
  proof (cases r)
    case None
    with r ih[of idx] show ?thesis by simp
  next
    case (Some np)
    obtain nm p where "np = (nm, p)" by (cases np)
    with Some r ih[of "store nm p idx"] show ?thesis by simp
  qed
qed

text \<open>
  Claim C8. Storing a pair puts its price under the name as written and under the
  lowercased name. The index the builder returns is the result of storing, in the order
  of the dump, every pair it extracts: for an entry that gives the pair \<open>(nm, p)\<close>, both
  \<open>nm\<close> and its lowercase are keys of the index, and each of the two holds \<open>p\<close> unless a
  later entry writes that key (a dict keeps the last value assigned); conversely a price
  the index holds under a key is the price of the last entry that writes the key, so the
  index holds nothing else. The builder returns when every entry gives a pair or none.
  Right after the loop has handled an entry that gives \<open>(nm, p)\<close>, both keys hold \<open>p\<close>.
  The index built from the dump whose \<open>data\<close> holds
  \<open>{"123": {"name": "Ranarr potion(4)", "price": 100}}\<close> gives 100 for the lowercase
  name \<open>ranarr potion(4)\<close>.
\<close>

theorem C8_both_keys_stored:
  "(store nm p idx0) nm = Some p \<and> (store nm p idx0) (lower nm) = Some p
   \<and> (build_name_to_price (JObj d) = Inr idx \<and> entries d = before @ item # after
        \<and> extract_pair item = Inr (Some (nm, p)) \<longrightarrow>
        nm \<in> dom idx \<and> lower nm \<in> dom idx
        \<and> (\<forall>k. (k = nm \<or> k = lower nm)
               \<and> (\<forall>item' \<in> set after. \<forall>nm' p'.
                     extract_pair item' = Inr (Some (nm', p')) \<longrightarrow> nm' \<noteq> k \<and> lower nm' \<noteq> k)
               \<longrightarrow> idx k = Some p))
   \<and> (build_name_to_price (JObj d) = Inr idx \<and> idx k = Some q \<longrightarrow>
        (\<exists>before item after nm.
           entries d = before @ item # after
           \<and> extract_pair item = Inr (Some (nm, q)) \<and> (k = nm \<or> k = lower nm)
           \<and> (\<forall>item' \<in> set after. \<forall>nm' p'.
                 extract_pair item' = Inr (Some (nm', p')) \<longrightarrow> nm' \<noteq> k \<and> lower nm' \<noteq> k)))
   \<and> ((\<forall>item \<in> set (entries d). \<exists>r. extract_pair item = Inr r) \<longrightarrow>
        (\<exists>idx'. build_name_to_price (JObj d) = Inr idx'))
   \<and> (build_items (before @ [item]) idx0 = Inr idx1
        \<and> extract_pair item = Inr (Some (nm, p)) \<longrightarrow>
        idx1 nm = Some p \<and> idx1 (lower nm) = Some p)
   \<and> (case build_name_to_price
               (JObj [(''data'',
                       JObj [(''123'', JObj [(''name'', JStr ''Ranarr potion(4)''),
                                             (''price'', JInt 100)])])]) of
          Inr idx \<Rightarrow> price_of idx (JStr ''ranarr potion(4)'') = Inr (Some (Fin 25 2))
                     \<and> price_of idx (JStr ''Ranarr potion(4)'') = Inr (Some (Fin 25 2))
        | Inl err \<Rightarrow> False)"
proof (intro conjI)
  show "(store nm p idx0) nm = Some p" and "(store nm p idx0) (lower nm) = Some p"
    by (simp_all add: store_def)
  show "build_name_to_price (JObj d) = Inr idx \<and> entries d = before @ item # after
        \<and> extract_pair item = Inr (Some (nm, p)) \<longrightarrow>
        nm \<in> dom idx \<and> lower nm \<in> dom idx
        \<and> (\<forall>k. (k = nm \<or> k = lower nm)
               \<and> (\<forall>item' \<in> set after. \<forall>nm' p'.
                     extract_pair item' = Inr (Some (nm', p')) \<longrightarrow> nm' \<noteq> k \<and> lower nm' \<noteq> k)
               \<longrightarrow> idx k = Some p)"
  proof (intro impI, elim conjE)
    assume b: "build_name_to_price (JObj d) = Inr idx"
      and e: "entries d = before @ item # after"
      and x: "extract_pair item = Inr (Some (nm, p))"
    from b e have bi: "build_items (before @ item # after) Map.empty = Inr idx"
      by (simp add: build_name_to_price_def)
    have last: "idx k = Some p"
      if "k = nm \<or> k = lower nm"
        and "\<forall>item' \<in> set after. \<forall>nm' p'.
               extract_pair item' = Inr (Some (nm', p')) \<longrightarrow> nm' \<noteq> k \<and> lower nm' \<noteq> k"
      for k
      using build_items_last_writer[OF bi x that] .
    from build_items_dom(2)[OF bi] x
    have key: "nm \<in> dom idx \<and> lower nm \<in> dom idx" by simp
    from key last show "nm \<in> dom idx \<and> lower nm \<in> dom idx
        \<and> (\<forall>k. (k = nm \<or> k = lower nm)
               \<and> (\<forall>item' \<in> set after. \<forall>nm' p'.
                     extract_pair item' = Inr (Some (nm', p')) \<longrightarrow> nm' \<noteq> k \<and> lower nm' \<noteq> k)
               \<longrightarrow> idx k = Some p)"
      by blast
  qed
  show "build_name_to_price (JObj d) = Inr idx \<and> idx k = Some q \<longrightarrow>
        (\<exists>before item after nm.
           entries d = before @ item # after
           \<and> extract_pair item = Inr (Some (nm, q)) \<and> (k = nm \<or> k = lower nm)
           \<and> (\<forall>item' \<in> set after. \<forall>nm' p'.
                 extract_pair item' = Inr (Some (nm', p')) \<longrightarrow> nm' \<noteq> k \<and> lower nm' \<noteq> k))"
  proof (intro impI, elim conjE)
    assume b: "build_name_to_price (JObj d) = Inr idx" and q: "idx k = Some q"
    from b have bi: "build_items (entries d) Map.empty = Inr idx"
      by (simp add: build_name_to_price_def)
    from build_items_origin[OF bi q]
    show "\<exists>before item after nm.
           entries d = before @ item # after
           \<and> extract_pair item = Inr (Some (nm, q)) \<and> (k = nm \<or> k = lower nm)
           \<and> (\<forall>item' \<in> set after. \<forall>nm' p'.
                 extract_pair item' = Inr (Some (nm', p')) \<longrightarrow> nm' \<noteq> k \<and> lower nm' \<noteq> k)"
      by simp
  qed
  show "(\<forall>item \<in> set (entries d). \<exists>r. extract_pair item = Inr r) \<longrightarrow>
        (\<exists>idx'. build_name_to_price (JObj d) = Inr idx')"
    using build_items_returns[of "entries d" Map.empty]
    by (simp add: build_name_to_price_def)
  show "build_items (before @ [item]) idx0 = Inr idx1
        \<and> extract_pair item = Inr (Some (nm, p)) \<longrightarrow>
        idx1 nm = Some p \<and> idx1 (lower nm) = Some p"
  proof (intro impI, elim conjE)
    assume bi: "build_items (before @ [item]) idx0 = Inr idx1"
      and x: "extract_pair item = Inr (Some (nm, p))"
    have "idx1 k = Some p" if "k = nm \<or> k = lower nm" for k
      using build_items_last_writer[OF bi x that] by simp
    then show "idx1 nm = Some p \<and> idx1 (lower nm) = Some p" by simp
  qed
  show "case build_name_to_price
                (JObj [(''data'',
                        JObj [(''123'', JObj [(''name'', JStr ''Ranarr potion(4)''),
                                              (''price'', JInt 100)])])]) of
           Inr idx \<Rightarrow> price_of idx (JStr ''ranarr potion(4)'') = Inr (Some (Fin 25 2))
                      \<and> price_of idx (JStr ''Ranarr potion(4)'') = Inr (Some (Fin 25 2))
         | Inl err \<Rightarrow> False"
    by code_simp
qed

lemma dump_example_entries:
  "entries [(''data'',
             JObj [(''1'', JObj [(''name'', JStr ''Herb''), (''price'', JInt 100)]),
                   (''2'', JObj [(''name'', JStr ''Eye''), (''price'', JInt 100)]),
                   (''3'', JObj [(''name'', JStr ''Brew(4)''), (''price'', JInt 200)])])]
     = [JObj [(''name'', JStr ''Herb''), (''price'', JInt 100)],
        JObj [(''name'', JStr ''Eye''), (''price'', JInt 100)],
        JObj [(''name'', JStr ''Brew(4)''), (''price'', JInt 200)]]"
  by code_simp

lemma extract_pair_example:
  "extract_pair (JObj [(''name'', JStr ''Brew(4)''), (''price'', JInt 200)])
     = Inr (Some (''Brew(4)'', Fin 25 3))"
  by code_simp

lemma lower_example: "lower ''Brew(4)'' = ''brew(4)''"
  by code_simp

lemma dump_example_builds:
  "case build_name_to_price dump_example of Inr idx \<Rightarrow> True | Inl err \<Rightarrow> False"
  by code_simp

lemma extract_pair_herb:
  "extract_pair (JObj [(''name'', JStr ''Herb''), (''price'', JInt 100)])
     = Inr (Some (''Herb'', Fin 25 2))"
  by code_simp

lemma extract_pair_eye:
  "extract_pair (JObj [(''name'', JStr ''Eye''), (''price'', JInt 100)])
     = Inr (Some (''Eye'', Fin 25 2))"
  by code_simp

lemma lower_examples: "lower ''Herb'' = ''herb''" "lower ''Eye'' = ''eye''"
  by code_simp+

theorem C8_witness:
  "case build_name_to_price dump_example of
     Inr idx \<Rightarrow> idx ''Herb'' = Some (Fin 25 2) \<and> idx ''herb'' = Some (Fin 25 2)
                \<and> ''Herb'' \<in> dom idx \<and> ''herb'' \<in> dom idx
   | Inl err \<Rightarrow> False"
proof (cases "build_name_to_price dump_example")
  case (Inl err)
  with dump_example_builds show ?thesis by simp
next
  case (Inr idx)
  let ?herb = "JObj [(''name'', JStr ''Herb''), (''price'', JInt 100)]"
  let ?rest = "[JObj [(''name'', JStr ''Eye''), (''price'', JInt 100)],
                JObj [(''name'', JStr ''Brew(4)''), (''price'', JInt 200)]]"
  let ?d = "[(''data'',
             JObj [(''1'', JObj [(''name'', JStr ''Herb''), (''price'', JInt 100)]),
                   (''2'', JObj [(''name'', JStr ''Eye''), (''price'', JInt 100)]),
                   (''3'', JObj [(''name'', JStr ''Brew(4)''), (''price'', JInt 200)])])]"
  have b: "build_name_to_price (JObj ?d) = Inr idx"
    using Inr by (simp only: dump_example_def)
  have e: "entries ?d = [] @ ?herb # ?rest"
    by (simp only: dump_example_entries append_Nil)
  have quiet: "\<forall>item' \<in> set ?rest. \<forall>nm' p'.
                 extract_pair item' = Inr (Some (nm', p')) \<longrightarrow> nm' \<noteq> k \<and> lower nm' \<noteq> k"
    if "k = ''Herb'' \<or> k = ''herb''" for k
    using that by (auto simp: extract_pair_eye extract_pair_example lower_examples lower_example)
  note imp = C8_both_keys_stored[of "''Herb''" "Fin 25 2" _ ?d idx "[]" ?herb ?rest,
      THEN conjunct2, THEN conjunct2, THEN conjunct1]
  from imp b e extract_pair_herb
  have th: "''Herb'' \<in> dom idx \<and> lower ''Herb'' \<in> dom idx
        \<and> (\<forall>k. (k = ''Herb'' \<or> k = lower ''Herb'')
               \<and> (\<forall>item' \<in> set ?rest. \<forall>nm' p'.
                     extract_pair item' = Inr (Some (nm', p')) \<longrightarrow> nm' \<noteq> k \<and> lower nm' \<noteq> k)
               \<longrightarrow> idx k = Some (Fin 25 2))"
    by blast
  note th' = th[unfolded lower_examples]
  from th' quiet[of "''Herb''"] have 1: "idx ''Herb'' = Some (Fin 25 2)" by blast
  from th' quiet[of "''herb''"] have 2: "idx ''herb'' = Some (Fin 25 2)" by blast
  from th' have 3: "''Herb'' \<in> dom idx" and 4: "''herb'' \<in> dom idx" by blast+
  from 1 2 3 4 show ?thesis by (simp only: Inr sum.case simp_thms)
qed

section \<open>The worked example\<close>

text \<open>The arithmetic of the example, each step rounded as Python rounds it.\<close>

lemma example_arithmetic:
  shows "float_of_int 4 = Inr (Fin 1 2)"
    and "fadd (Fin 1 2) AMULET_BONUS_DOSES = round_ratio 415 100"
    and "fmul (Fin 25 1) (round_ratio 415 100) = round_ratio 20750000000000003 100000000000000"
    and "fmul (round_ratio 20750000000000003 100000000000000) TAX_MULTIPLIER
           = round_ratio 20335000000000002 100000000000000"
    and "fadd (Fin 25 4) (fmul (Fin 25 2) (Fin 1 0)) = round_ratio 500 1"
    and "fsub (round_ratio 20335000000000002 100000000000000) (round_ratio 500 1)
           = round_ratio (- 29665) 100"
    and "fdiv (Fin 125 4) (Fin 25 1) = Inr (round_ratio 40 1)"
    and "fmul (round_ratio (- 29665) 100) (round_ratio 40 1) = round_ratio (- 11866) 1"
  by code_simp+

lemma example_comparisons:
  shows "\<not> fle_int (Fin 25 1) 0" and "\<not> fle_int (Fin 125 4) 0"
    and "\<not> fgt_int (round_ratio (- 11866) 1) ALERT_GP_PER_HOUR"
    and "flt (round_ratio 2075 10) (round_ratio 20750000000000003 100000000000000)"
    and "flt (round_ratio 20335 100) (round_ratio 20335000000000002 100000000000000)"
    and "round_ratio 20750000000000003 100000000000000 \<noteq> round_ratio 2075 10"
    and "round_ratio 20335000000000002 100000000000000 \<noteq> round_ratio 20335 100"
  by code_simp+

lemma example_frame:
  assumes n: "safe_int pf (dget recipe ''N'') = Inr (Some 4)"
    and xc: "safe_float pf (dget recipe ''XP_per_craft'') = Inr (Some (Fin 25 1))"
    and xh: "safe_float pf (dget recipe ''XP_per_hour'') = Inr (Some (Fin 125 4))"
    and gg: "\<not> truthy (dget_default recipe ''GogglesAllowed'' (JBool False))"
    and bm: "or_empty_list (dget recipe ''BaseMaterials'') = JList bm"
    and sm: "or_empty_list (dget recipe ''SecondaryMaterials'') = JList sm"
    and out: "\<not> is_marker_missing (dget_default recipe ''OutputItemName'' (JStr []))"
    and sb: "scan_mats idx ''base'' bm = Inr None"
    and ss: "scan_mats idx ''secondary'' sm = Inr None"
    and bc: "compute_material_cost pf idx bm (Some 4) = Inr (Some (Fin 25 4))"
    and sc: "compute_material_cost pf idx sm (Some 4) = Inr (Some (Fin 25 2))"
    and pd: "price_per_dose_of_output idx (dget_default recipe ''OutputItemName'' (JStr []))
               = Inr (Some (Fin 25 1))"
  shows "compute_recipe_frame pf idx recipe =
     Inr \<lparr> v_recipe_name = dget_default recipe ''RecipeName'' (JStr []),
           v_output_item_name = dget_default recipe ''OutputItemName'' (JStr []),
           v_recipe_type = dget_default recipe ''RecipeType'' (JStr []),
           v_n = Some 4,
           v_goggles_allowed = False,
           v_xp_per_craft = Some (Fin 25 1),
           v_xp_per_hour = Some (Fin 125 4),
           v_base_mats = JList bm,
           v_sec_mats = JList sm,
           v_invalid_reasons = [],
           v_expected_doses = Some (round_ratio 415 100),
           v_base_cost = Some (Fin 25 4),
           v_secondary_cost = Some (Fin 25 2),
           v_total_cost = Some (round_ratio 500 1),
           v_price_per_dose = Some (Fin 25 1),
           v_revenue_before_tax = Some (round_ratio 20750000000000003 100000000000000),
           v_revenue_after_tax = Some (round_ratio 20335000000000002 100000000000000),
           v_profit_per_craft = Some (round_ratio (- 29665) 100),
           v_crafts_per_hour = Some (round_ratio 40 1),
           v_gp_per_hour = Some (round_ratio (- 11866) 1),
           v_valid = True,
           v_is_alert = False \<rparr>"
proof -
  have s: "structural_reasons \<lparr> v_recipe_name = a1, v_output_item_name = dget_default recipe ''OutputItemName'' (JStr []),
           v_recipe_type = a2, v_n = Some 4, v_goggles_allowed = a3,
           v_xp_per_craft = Some (Fin 25 1), v_xp_per_hour = Some (Fin 125 4),
           v_base_mats = JList bm, v_sec_mats = JList sm, v_invalid_reasons = a4,
           v_expected_doses = a5, v_base_cost = a6, v_secondary_cost = a7, v_total_cost = a8,
           v_price_per_dose = a9, v_revenue_before_tax = a10, v_revenue_after_tax = a11,
           v_profit_per_craft = a12, v_crafts_per_hour = a13, v_gp_per_hour = a14,
           v_valid = a15, v_is_alert = a16 \<rparr> = []"
    for a1 a2 a3 a4 a5 a6 a7 a8 a9 a10 a11 a12 a13 a14 a15 a16
    by (simp add: structural_reasons_def reason_if_def shape_bad_def output_bad_def n_bad_def
          xp_bad_def out example_comparisons)
  show ?thesis
    unfolding compute_recipe_frame_def read_fields_def
    by (simp add: n xc xh gg bm sm structural_checks_def s early_checks_def scan_stage_def sb ss
          doses_stage_def costs_stage_def bc sc add_reason_if_none_def revenue_stage_def pd
          profit_stage_def alert_stage_def example_arithmetic example_comparisons
          del: fadd.simps fmul.simps fdiv.simps)
qed

text \<open>
  Claim C2, as stated: the recipe with \<open>N = 4\<close>, 50 experience a craft, 2000 an hour,
  base materials for 400, secondary for 100, no goggles and an output at 50 a dose has
  \<open>revenueBeforeTax\<close> exactly 207.5 and \<open>revenueAfterTax\<close> exactly 203.35. On the example
  recipe, which has all these values, the two revenues are not the floats 207.5 and
  203.35 but the next float above each: \<open>50.0 * 4.15\<close> rounds to 207.50000000000003.
\<close>

lemma recipe_example_frame:
  "compute_recipe_frame pf_none idx_example recipe_example =
     Inr \<lparr>v_recipe_name = JStr ''Brew'', v_output_item_name = JStr ''Brew(4)'',
           v_recipe_type = JStr ''mix'', v_n = Some 4,
           v_goggles_allowed = False, v_xp_per_craft = Some (Fin 25 1),
           v_xp_per_hour = Some (Fin 125 4),
           v_base_mats =
             JList [JObj [(''ItemName'', JStr ''Herb''), (''Quantity'', JInt 4)]],
           v_sec_mats =
             JList [JObj [(''ItemName'', JStr ''Eye''), (''Quantity'', JInt 1)]],
           v_invalid_reasons = [],
           v_expected_doses = Some (Fin 2336242306698445 (- 49)),
           v_base_cost = Some (Fin 25 4), v_secondary_cost = Some (Fin 25 2),
           v_total_cost = Some (Fin 125 2), v_price_per_dose = Some (Fin 25 1),
           v_revenue_before_tax = Some (Fin 7300757208432641 (- 45)),
           v_revenue_after_tax = Some (Fin 1788685516065997 (- 43)),
           v_profit_per_craft = Some (Fin (- 2609360995038003) (- 43)),
           v_crafts_per_hour = Some (Fin 5 3),
           v_gp_per_hour = Some (Fin (- 5933) 1), v_valid = True,
           v_is_alert = False\<rparr>"
  by code_simp

lemma example_decimals:
  shows "round_ratio 50 1 = Fin 25 1" and "round_ratio 2000 1 = Fin 125 4"
    and "round_ratio 400 1 = Fin 25 4" and "round_ratio 100 1 = Fin 25 2"
    and "round_ratio 2075 10 = Fin 415 (- 1)"
    and "round_ratio 20335 100 = Fin 7154742064263987 (- 45)"
  by code_simp+

theorem C2_counterexample:
  "\<exists>f. compute_recipe_frame pf_none idx_example recipe_example = Inr f
       \<and> v_n f = Some 4 \<and> v_xp_per_craft f = Some (round_ratio 50 1)
       \<and> v_xp_per_hour f = Some (round_ratio 2000 1)
       \<and> v_base_cost f = Some (round_ratio 400 1)
       \<and> v_secondary_cost f = Some (round_ratio 100 1)
       \<and> \<not> v_goggles_allowed f
       \<and> v_price_per_dose f = Some (round_ratio 50 1)
       \<and> v_revenue_before_tax f \<noteq> Some (round_ratio 2075 10)
       \<and> v_revenue_after_tax f \<noteq> Some (round_ratio 20335 100)"
  by (simp add: recipe_example_frame example_decimals)

text \<open>
  Claim C2, amended. For a recipe that passes the checks, with \<open>N = 4\<close>,
  \<open>XP_per_craft = 50\<close>, \<open>XP_per_hour = 2000\<close>, base materials costing 400, secondary
  materials costing 100, no goggles and an output at 50 a dose, \<open>compute_recipe\<close>
  computes: \<open>expected_doses\<close> the float 4.15; \<open>revenue_before_tax\<close> the float
  207.50000000000003; \<open>revenue_after_tax\<close> the float 203.35000000000002; \<open>total_cost\<close>
  500; \<open>profit_per_craft\<close> the float -296.65; \<open>crafts_per_hour\<close> 40; \<open>gp_per_hour\<close>
  -11866; a valid result, and no alert. Here "the float \<open>x\<close>" is the binary64 number
  nearest to the decimal \<open>x\<close>, which is how Python reads and prints it.
\<close>

theorem C2_worked_example:
  assumes "safe_int pf (dget recipe ''N'') = Inr (Some 4)"
    and "safe_float pf (dget recipe ''XP_per_craft'') = Inr (Some (round_ratio 50 1))"
    and "safe_float pf (dget recipe ''XP_per_hour'') = Inr (Some (round_ratio 2000 1))"
    and "\<not> truthy (dget_default recipe ''GogglesAllowed'' (JBool False))"
    and "or_empty_list (dget recipe ''BaseMaterials'') = JList bm"
    and "or_empty_list (dget recipe ''SecondaryMaterials'') = JList sm"
    and "\<not> is_marker_missing (dget_default recipe ''OutputItemName'' (JStr []))"
    and "scan_mats idx ''base'' bm = Inr None"
    and "scan_mats idx ''secondary'' sm = Inr None"
    and "compute_material_cost pf idx bm (Some 4) = Inr (Some (round_ratio 400 1))"
    and "compute_material_cost pf idx sm (Some 4) = Inr (Some (round_ratio 100 1))"
    and "price_per_dose_of_output idx (dget_default recipe ''OutputItemName'' (JStr []))
           = Inr (Some (round_ratio 50 1))"
  shows "\<exists>f. compute_recipe_frame pf idx recipe = Inr f
       \<and> compute_recipe pf idx recipe = Inr (result_dict f)
       \<and> v_expected_doses f = Some (round_ratio 415 100)
       \<and> v_revenue_before_tax f = Some (round_ratio 20750000000000003 100000000000000)
       \<and> v_revenue_after_tax f = Some (round_ratio 20335000000000002 100000000000000)
       \<and> v_total_cost f = Some (round_ratio 500 1)
       \<and> v_profit_per_craft f = Some (round_ratio (- 29665) 100)
       \<and> v_crafts_per_hour f = Some (round_ratio 40 1)
       \<and> v_gp_per_hour f = Some (round_ratio (- 11866) 1)
       \<and> v_valid f \<and> \<not> v_is_alert f
       \<and> profit_per_craft (result_dict f) = Some (round_ratio (- 29665) 100)
       \<and> crafts_per_hour (result_dict f) = Some (round_ratio 40 1)
       \<and> gp_per_hour (result_dict f) = Some (round_ratio (- 11866) 1)
       \<and> valid (result_dict f)"
proof -
  note e = example_frame[OF assms[unfolded example_decimals]]
  show ?thesis
    by (simp add: e compute_recipe_def result_dict_def)
qed

lemma recipe_example_premises:
  shows "safe_int pf_none (dget recipe_example ''N'') = Inr (Some 4)"
    and "safe_float pf_none (dget recipe_example ''XP_per_craft'') = Inr (Some (round_ratio 50 1))"
    and "safe_float pf_none (dget recipe_example ''XP_per_hour'') = Inr (Some (round_ratio 2000 1))"
    and "\<not> truthy (dget_default recipe_example ''GogglesAllowed'' (JBool False))"
    and "or_empty_list (dget recipe_example ''BaseMaterials'')
           = JList [JObj [(''ItemName'', JStr ''Herb''), (''Quantity'', JInt 4)]]"
    and "or_empty_list (dget recipe_example ''SecondaryMaterials'')
           = JList [JObj [(''ItemName'', JStr ''Eye''), (''Quantity'', JInt 1)]]"
    and "\<not> is_marker_missing (dget_default recipe_example ''OutputItemName'' (JStr []))"
    and "scan_mats idx_example ''base''
           [JObj [(''ItemName'', JStr ''Herb''), (''Quantity'', JInt 4)]] = Inr None"
    and "scan_mats idx_example ''secondary''
           [JObj [(''ItemName'', JStr ''Eye''), (''Quantity'', JInt 1)]] = Inr None"
    and "compute_material_cost pf_none idx_example
           [JObj [(''ItemName'', JStr ''Herb''), (''Quantity'', JInt 4)]] (Some 4)
           = Inr (Some (round_ratio 400 1))"
    and "compute_material_cost pf_none idx_example
           [JObj [(''ItemName'', JStr ''Eye''), (''Quantity'', JInt 1)]] (Some 4)
           = Inr (Some (round_ratio 100 1))"
    and "price_per_dose_of_output idx_example
           (dget_default recipe_example ''OutputItemName'' (JStr []))
           = Inr (Some (round_ratio 50 1))"
  by code_simp+

theorem C2_witness:
  "\<exists>f. compute_recipe_frame pf_none idx_example recipe_example = Inr f
       \<and> v_expected_doses f = Some (round_ratio 415 100)
       \<and> v_revenue_before_tax f = Some (round_ratio 20750000000000003 100000000000000)
       \<and> v_revenue_after_tax f = Some (round_ratio 20335000000000002 100000000000000)
       \<and> v_total_cost f = Some (round_ratio 500 1)
       \<and> v_profit_per_craft f = Some (round_ratio (- 29665) 100)
       \<and> v_crafts_per_hour f = Some (round_ratio 40 1)
       \<and> v_gp_per_hour f = Some (round_ratio (- 11866) 1)
       \<and> v_valid f \<and> \<not> v_is_alert f"
  using C2_worked_example[OF recipe_example_premises] by blast

theorem C6_witness:
  "price_of [''Foo'' \<mapsto> Fin 0 0] (JStr ''Foo'') \<noteq> Inr (Some (Fin 0 0))
   \<and> price_of [''Foo'' \<mapsto> Fin 0 0, ''foo'' \<mapsto> Fin 5 0] (JStr ''Foo'') \<noteq> Inr (Some (Fin 0 0))"
  using C6_zero_price_taken_for_missing by simp

section \<open>The order of floats\<close>

lemma fval_scale:
  assumes "e \<le> e1"
  shows "fval (Fin m e1) = of_int (m * 2 ^ nat (e1 - e)) * 2 powi e"
proof -
  have "(2::rat) powi e1 = 2 powi (e + (e1 - e))" by simp
  also have "\<dots> = 2 powi e * 2 powi (e1 - e)"
    by (rule power_int_add) simp
  also have "(2::rat) powi (e1 - e) = 2 ^ nat (e1 - e)"
    using assms by (simp add: power_int_def)
  finally show ?thesis by simp
qed

lemma flt_Fin_iff: "flt (Fin m1 e1) (Fin m2 e2) \<longleftrightarrow> fval (Fin m1 e1) < fval (Fin m2 e2)"
proof -
  define e where "e = min e1 e2"
  have p: "(0::rat) < 2 powi e" by (simp add: zero_less_power_int)
  have "fval (Fin m1 e1) < fval (Fin m2 e2) \<longleftrightarrow>
          (of_int (m1 * 2 ^ nat (e1 - e)) :: rat) * 2 powi e < of_int (m2 * 2 ^ nat (e2 - e)) * 2 powi e"
    by (simp only: fval_scale[of e e1 m1] fval_scale[of e e2 m2] e_def min.cobounded1 min.cobounded2)
  also have "\<dots> \<longleftrightarrow> (of_int (m1 * 2 ^ nat (e1 - e)) :: rat) < of_int (m2 * 2 ^ nat (e2 - e))"
    using p by (simp only: mult_less_cancel_right_pos)
  also have "\<dots> \<longleftrightarrow> m1 * 2 ^ nat (e1 - e) < m2 * 2 ^ nat (e2 - e)"
    by (simp only: of_int_less_iff)
  finally show ?thesis by (simp add: e_def Let_def)
qed

text \<open>On floats that are not NaN, \<open><\<close> is the lexicographic order of rank and value.\<close>

lemma flt_iff:
  assumes "a \<noteq> NaN" and "b \<noteq> NaN"
  shows "flt a b \<longleftrightarrow> frank a < frank b \<or> (frank a = frank b \<and> fval a < fval b)"
  using assms by (cases a; cases b) (simp_all add: flt_Fin_iff del: flt.simps(1) fval.simps(1))

lemma flt_asym: "flt a b \<Longrightarrow> \<not> flt b a"
  by (cases "a = NaN \<or> b = NaN") (auto simp: flt_iff)

lemma not_flt_trans:
  assumes "a \<noteq> NaN" and "b \<noteq> NaN" and "c \<noteq> NaN"
    and "\<not> flt a b" and "\<not> flt b c"
  shows "\<not> flt a c"
  using assms by (auto simp: flt_iff)

lemma not_flt_NInf:
  assumes "b \<noteq> NaN" and "\<not> flt NInf b"
  shows "b = NInf"
  using assms by (cases b) simp_all

section \<open>The sort of Table A\<close>

lemma sorted_insort_desc:
  assumes "\<forall>y \<in> set (x # ys). k y \<noteq> NaN"
    and "sorted_wrt (\<lambda>a b. \<not> flt (k a) (k b)) ys"
  shows "sorted_wrt (\<lambda>a b. \<not> flt (k a) (k b)) (insort_desc k x ys)"
  using assms
proof (induction ys)
  case Nil
  then show ?case by simp
next
  case (Cons y ys)
  show ?case
  proof (cases "flt (k x) (k y)")
    case True
    have "sorted_wrt (\<lambda>a b. \<not> flt (k a) (k b)) (insort_desc k x ys)"
      using Cons by simp
    moreover have "\<forall>z \<in> set (insort_desc k x ys). \<not> flt (k y) (k z)"
      using Cons.prems(2) True flt_asym by (auto simp: set_insort_desc)
    ultimately show ?thesis using True by simp
  next
    case False
    have "\<forall>z \<in> set ys. \<not> flt (k x) (k z)"
    proof
      fix z assume z: "z \<in> set ys"
      with Cons.prems(2) have "\<not> flt (k y) (k z)" by simp
      with False show "\<not> flt (k x) (k z)"
        using Cons.prems(1) z by (intro not_flt_trans[of "k x" "k y" "k z"]) simp_all
    qed
    with False Cons.prems(2) show ?thesis by simp
  qed
qed

lemma sorted_sorted_reverse:
  assumes "\<forall>y \<in> set xs. k y \<noteq> NaN"
  shows "sorted_wrt (\<lambda>a b. \<not> flt (k a) (k b)) (sorted_reverse k xs)"
  using assms
proof (induction xs)
  case Nil
  then show ?case by (simp add: sorted_reverse_def)
next
  case (Cons x xs)
  then have s: "sorted_wrt (\<lambda>a b. \<not> flt (k a) (k b)) (sorted_reverse k xs)" by simp
  have "\<forall>y \<in> set (x # sorted_reverse k xs). k y \<noteq> NaN"
    using Cons.prems by (simp add: set_sorted_reverse)
  from sorted_insort_desc[OF this s] show ?case by (simp add: sorted_reverse_def)
qed

lemma filter_insort_desc:
  assumes "P x \<longrightarrow> (\<forall>y \<in> set ys. flt (k x) (k y) \<longrightarrow> \<not> P y)"
  shows "filter P (insort_desc k x ys) = (if P x then x # filter P ys else filter P ys)"
  using assms
proof (induction ys)
  case Nil
  show ?case by simp
next
  case (Cons y ys)
  then have ih: "filter P (insort_desc k x ys) = (if P x then x # filter P ys else filter P ys)"
    by simp
  show ?case
  proof (cases "flt (k x) (k y)")
    case True
    with Cons.prems have "P x \<longrightarrow> \<not> P y" by simp
    with True ih show ?thesis by simp
  next
    case False
    then show ?thesis by simp
  qed
qed
lemma filter_sorted_reverse:
  assumes "\<forall>a \<in> set xs. \<forall>b \<in> set xs. P a \<and> flt (k a) (k b) \<longrightarrow> \<not> P b"
  shows "filter P (sorted_reverse k xs) = filter P xs"
  using assms
proof (induction xs)
  case Nil
  show ?case by (simp add: sorted_reverse_def)
next
  case (Cons x xs)
  have sub: "\<forall>a \<in> set xs. \<forall>b \<in> set xs. P a \<and> flt (k a) (k b) \<longrightarrow> \<not> P b"
  proof (intro ballI)
    fix a b assume "a \<in> set xs" "b \<in> set xs"
    then have "a \<in> set (x # xs)" "b \<in> set (x # xs)" by simp_all
    with Cons.prems show "P a \<and> flt (k a) (k b) \<longrightarrow> \<not> P b" by blast
  qed
  have ih: "filter P (sorted_reverse k xs) = filter P xs"
    by (rule Cons.IH[OF sub])
  have "P x \<longrightarrow> (\<forall>y \<in> set (sorted_reverse k xs). flt (k x) (k y) \<longrightarrow> \<not> P y)"
  proof (intro impI ballI)
    fix y assume px: "P x" and "y \<in> set (sorted_reverse k xs)" and lt: "flt (k x) (k y)"
    then have "y \<in> set (x # xs)" by (simp add: set_sorted_reverse)
    moreover have "x \<in> set (x # xs)" by simp
    ultimately show "\<not> P y" using Cons.prems px lt by blast
  qed
  from filter_insort_desc[OF this] have
    "filter P (insort_desc k x (sorted_reverse k xs))
       = (if P x then x # filter P (sorted_reverse k xs) else filter P (sorted_reverse k xs))" .
  then have "filter P (sorted_reverse k (x # xs))
       = (if P x then x # filter P (sorted_reverse k xs) else filter P (sorted_reverse k xs))"
    by (simp only: sorted_reverse_def foldr.simps o_apply)
  with ih show ?case by simp
qed
lemma length_insort_desc: "length (insort_desc k x ys) = Suc (length ys)"
  by (induction ys) auto

lemma length_sorted_reverse: "length (sorted_reverse k xs) = length xs"
  by (induction xs) (auto simp: sorted_reverse_def length_insort_desc)
lemma compute_all_results:
  assumes "compute_all pf idx recipes = Inr cs" and "r \<in> set cs"
  shows "\<exists>rc \<in> set recipes. compute_recipe pf idx rc = Inr r"
  using assms
proof (induction recipes arbitrary: cs)
  case Nil
  then show ?case by simp
next
  case (Cons a as)
  from Cons.prems(1) obtain c cs' where
    c: "compute_recipe pf idx a = Inr c" and cs': "compute_all pf idx as = Inr cs'" and
    e: "cs = c # cs'"
    by (auto elim!: ebind_Inr_E)
  show ?case
  proof (cases "r = c")
    case True
    with c show ?thesis by simp
  next
    case False
    with Cons.prems(2) e have "r \<in> set cs'" by simp
    from Cons.IH[OF cs' this] show ?thesis by auto
  qed
qed

lemma computed_valid_gp:
  assumes "compute_all pf idx recipes = Inr cs" and "r \<in> set cs" and "valid r"
  shows "\<exists>g. gp_per_hour r = Some g \<and> sort_key_of r = g"
proof -
  from compute_all_results[OF assms(1,2)] obtain rc where "compute_recipe pf idx rc = Inr r"
    by blast
  then obtain f where f: "compute_recipe_frame pf idx rc = Inr f" and r: "r = result_dict f"
    by (rule compute_recipe_result)
  from assms(3) have "v_valid f" by (simp add: r result_dict_def)
  from frame_valid_gp[OF f this] obtain g where "v_gp_per_hour f = Some g" by auto
  with assms(3) show ?thesis by (simp add: r result_dict_def sort_key_of_def)
qed

lemma sort_key_invalid: "\<not> valid r \<Longrightarrow> sort_key_of r = NInf"
  by (simp add: sort_key_of_def split: option.splits)

text \<open>
  What the sort gives where the keys are ordered. Provided no valid recipe has a NaN
  gp-per-hour, in Table A: of two valid recipes the one listed first has a gp-per-hour
  that is not less than the other's; a valid recipe listed after an invalid one has
  gp-per-hour negative infinity; and the invalid recipes are in the order they have in
  the catalog after the exclusion filter. Table A holds every recipe once.
\<close>

lemma table_a_order:
  assumes "compute_all pf idx recipes = Inr computed"
    and "\<forall>r \<in> set computed. valid r \<longrightarrow> gp_per_hour r \<noteq> Some NaN"
  shows "tables pf idx recipes = Inr (table_a_of computed, table_b_of (table_a_of computed))
       \<and> length (table_a_of computed) = length computed
       \<and> set (table_a_of computed) = set computed
       \<and> (\<forall>i j. i < j \<and> j < length computed
                 \<and> valid (table_a_of computed ! i) \<and> valid (table_a_of computed ! j) \<longrightarrow>
             (\<exists>g h. gp_per_hour (table_a_of computed ! i) = Some g
                    \<and> gp_per_hour (table_a_of computed ! j) = Some h \<and> \<not> flt g h))
       \<and> (\<forall>i j. i < j \<and> j < length computed
                 \<and> \<not> valid (table_a_of computed ! i) \<and> valid (table_a_of computed ! j) \<longrightarrow>
             gp_per_hour (table_a_of computed ! j) = Some NInf)
       \<and> filter (\<lambda>r. \<not> valid r) (table_a_of computed) = filter (\<lambda>r. \<not> valid r) computed"
proof -
  let ?ta = "table_a_of computed"
  have len: "length ?ta = length computed"
    by (simp add: table_a_of_def length_sorted_reverse)
  have set: "set ?ta = set computed"
    by (simp add: table_a_of_def set_sorted_reverse)
  have key: "\<exists>g. gp_per_hour r = Some g \<and> sort_key_of r = g \<and> g \<noteq> NaN"
    if "r \<in> set computed" and "valid r" for r
    using computed_valid_gp[OF assms(1) that] assms(2) that by auto
  have nonan: "\<forall>r \<in> set computed. sort_key_of r \<noteq> NaN"
  proof
    fix r assume r: "r \<in> set computed"
    show "sort_key_of r \<noteq> NaN"
    proof (cases "valid r")
      case True
      with key[OF r] show ?thesis by auto
    next
      case False
      then show ?thesis by (simp add: sort_key_invalid)
    qed
  qed
  have "sorted_wrt (\<lambda>a b. \<not> flt (sort_key_of a) (sort_key_of b)) ?ta"
    unfolding table_a_of_def by (rule sorted_sorted_reverse[OF nonan])
  then have ord: "\<not> flt (sort_key_of (?ta ! i)) (sort_key_of (?ta ! j))"
    if "i < j" and "j < length computed" for i j
    using that len by (simp add: sorted_wrt_iff_nth_less)
  have mem: "?ta ! i \<in> set computed" if "i < length computed" for i
    using that len set nth_mem[of i ?ta] by simp
  have a: "\<exists>g h. gp_per_hour (?ta ! i) = Some g \<and> gp_per_hour (?ta ! j) = Some h \<and> \<not> flt g h"
    if "i < j" and "j < length computed" and "valid (?ta ! i)" and "valid (?ta ! j)" for i j
  proof -
    from that have i: "i < length computed" by simp
    from key[OF mem[OF i] that(3)] obtain g where
      g: "gp_per_hour (?ta ! i) = Some g" "sort_key_of (?ta ! i) = g" by blast
    from key[OF mem[OF that(2)] that(4)] obtain h where
      h: "gp_per_hour (?ta ! j) = Some h" "sort_key_of (?ta ! j) = h" by blast
    from ord[OF that(1,2)] g h show ?thesis by simp
  qed
  have b: "gp_per_hour (?ta ! j) = Some NInf"
    if "i < j" and "j < length computed" and "\<not> valid (?ta ! i)" and "valid (?ta ! j)" for i j
  proof -
    from key[OF mem[OF that(2)] that(4)] obtain h where
      h: "gp_per_hour (?ta ! j) = Some h" "sort_key_of (?ta ! j) = h" "h \<noteq> NaN" by blast
    from ord[OF that(1,2)] that(3) h have "\<not> flt NInf h" by (simp add: sort_key_invalid)
    with h(3) have "h = NInf" by (rule not_flt_NInf)
    with h(1) show ?thesis by simp
  qed
  have st: "filter (\<lambda>r. \<not> valid r) ?ta = filter (\<lambda>r. \<not> valid r) computed"
    unfolding table_a_of_def
  proof (rule filter_sorted_reverse, intro ballI impI)
    fix x y
    assume "x \<in> set computed" and "y \<in> set computed"
      and c: "\<not> valid x \<and> flt (sort_key_of x) (sort_key_of y)"
    then have "\<not> valid x" and "flt (sort_key_of x) (sort_key_of y)" by simp_all
    with sort_key_invalid[of x] have "flt NInf (sort_key_of y)" by simp
    then have "sort_key_of y \<noteq> NInf" by auto
    then show "\<not> \<not> valid y" using sort_key_invalid[of y] by auto
  qed
  have t: "tables pf idx recipes = Inr (?ta, table_b_of ?ta)"
    by (simp add: tables_def assms(1))
  from t len set a b st show ?thesis by blast
qed

lemma compute_all_example:
  "compute_all pf_none idx_example [recipe_example, recipe_no_n, recipe_alert]
     = Inr [row_example, row_broken, row_rich]"
  by code_simp

lemma example_rows_no_nan:
  "\<forall>r \<in> set [row_example, row_broken, row_rich]. valid r \<longrightarrow> gp_per_hour r \<noteq> Some NaN"
  by (simp add: row_example_def row_broken_def row_rich_def)

lemma table_a_example:
  "table_a_of [row_example, row_broken, row_rich] = [row_rich, row_example, row_broken]"
  by code_simp

lemma table_a_order_example:
  "tables pf_none idx_example [recipe_example, recipe_no_n, recipe_alert]
     = Inr ([row_rich, row_example, row_broken], table_b_of [row_rich, row_example, row_broken])
   \<and> filter (\<lambda>r. \<not> valid r) [row_rich, row_example, row_broken]
       = filter (\<lambda>r. \<not> valid r) [row_example, row_broken, row_rich]
   \<and> (\<exists>g h. gp_per_hour row_rich = Some g \<and> gp_per_hour row_example = Some h \<and> \<not> flt g h)"
proof -
  note th = table_a_order[OF compute_all_example example_rows_no_nan,
      unfolded table_a_example]
  from th have 1: "tables pf_none idx_example [recipe_example, recipe_no_n, recipe_alert]
     = Inr ([row_rich, row_example, row_broken], table_b_of [row_rich, row_example, row_broken])"
    by blast
  from th have 2: "filter (\<lambda>r. \<not> valid r) [row_rich, row_example, row_broken]
       = filter (\<lambda>r. \<not> valid r) [row_example, row_broken, row_rich]"
    by blast
  from th have "\<forall>i j. i < j \<and> j < length [row_example, row_broken, row_rich]
                 \<and> valid ([row_rich, row_example, row_broken] ! i)
                 \<and> valid ([row_rich, row_example, row_broken] ! j) \<longrightarrow>
             (\<exists>g h. gp_per_hour ([row_rich, row_example, row_broken] ! i) = Some g
                    \<and> gp_per_hour ([row_rich, row_example, row_broken] ! j) = Some h
                    \<and> \<not> flt g h)"
    by blast
  then have "0 < (1::nat) \<and> 1 < length [row_example, row_broken, row_rich]
                 \<and> valid ([row_rich, row_example, row_broken] ! 0)
                 \<and> valid ([row_rich, row_example, row_broken] ! 1) \<longrightarrow>
             (\<exists>g h. gp_per_hour ([row_rich, row_example, row_broken] ! 0) = Some g
                    \<and> gp_per_hour ([row_rich, row_example, row_broken] ! 1) = Some h
                    \<and> \<not> flt g h)"
    by blast
  moreover have "valid row_rich" and "valid row_example"
    by (simp_all add: row_rich_def row_example_def)
  ultimately have 3: "\<exists>g h. gp_per_hour row_rich = Some g \<and> gp_per_hour row_example = Some h
      \<and> \<not> flt g h"
    by simp
  from 1 2 3 show ?thesis by blast
qed

text \<open>A catalog of two recipes, the first without a batch multiplier, the second with
  a material that costs \<open>2^1023 * 4\<close>, and what the program computes for them.\<close>

lemma compute_all_huge:
  "compute_all pf_none idx_huge [recipe_no_n, recipe_huge] = Inr [row_broken, row_costly]"
  by code_simp

lemma table_a_huge: "table_a_of [row_broken, row_costly] = [row_broken, row_costly]"
  by code_simp

lemma table_b_huge: "table_b_of [row_broken, row_costly] = []"
  by code_simp

lemma compute_recipe_huge:
  "compute_recipe pf_none idx_huge recipe_no_n = Inr row_broken"
  "compute_recipe pf_none idx_huge recipe_huge = Inr row_costly"
  by code_simp+

lemma sort_keys_huge: "sort_key_of row_broken = NInf" "sort_key_of row_costly = NInf"
  by code_simp+

text \<open>
  Claim C4. Every invalid recipe is to stand after every valid recipe in Table A,
  whatever the numeric fields; the program means the same (\<open>invalid = bottom\<close>). The
  sort key of an invalid recipe is negative infinity, and so is the key of a valid
  recipe whose gp-per-hour is negative infinity; the sort is stable, so such a valid
  recipe stays behind an invalid one that precedes it in the catalog. In the catalog
  above the first recipe has no batch multiplier and is invalid; the second is valid,
  its material costs \<open>2^1023 * 4\<close>, which overflows to infinity, so that its profit and
  gp-per-hour are negative infinity. Table A lists the invalid recipe first.
\<close>

theorem C4_valid_recipe_listed_after_invalid:
  "compute_recipe pf_none idx_huge recipe_no_n = Inr row_broken
   \<and> compute_recipe pf_none idx_huge recipe_huge = Inr row_costly
   \<and> valid row_broken = False \<and> valid row_costly = True
   \<and> gp_per_hour row_costly = Some NInf
   \<and> sort_key_of row_broken = NInf \<and> sort_key_of row_costly = NInf
   \<and> tables pf_none idx_huge [recipe_no_n, recipe_huge] = Inr ([row_broken, row_costly], [])"
proof (intro conjI)
  show "compute_recipe pf_none idx_huge recipe_no_n = Inr row_broken"
    and "compute_recipe pf_none idx_huge recipe_huge = Inr row_costly"
    by (rule compute_recipe_huge)+
  show "valid row_broken = False" by (simp add: row_broken_def)
  show "valid row_costly = True" by (simp add: row_costly_def)
  show "gp_per_hour row_costly = Some NInf" by (simp add: row_costly_def)
  show "sort_key_of row_broken = NInf" and "sort_key_of row_costly = NInf"
    by (rule sort_keys_huge)+
  show "tables pf_none idx_huge [recipe_no_n, recipe_huge] = Inr ([row_broken, row_costly], [])"
    by (simp only: tables_def compute_all_huge ebind_Inr table_a_huge table_b_huge)
qed

theorem C4_witness:
  "case tables pf_none idx_huge [recipe_no_n, recipe_huge] of
     Inr (ta, tb) \<Rightarrow> length ta = 2 \<and> \<not> valid (ta ! 0) \<and> valid (ta ! 1)
   | Inl err \<Rightarrow> False"
  using C4_valid_recipe_listed_after_invalid by simp

section \<open>Delivery\<close>

text \<open>The wait before the retry is at least one second, and is the delay the server
  gives, rounded up, when the body of the response carries a number.\<close>

lemma retry_delay_at_least_one: "1 \<le> retry_delay pf body"
proof (cases body)
  case None
  then show ?thesis by (simp add: retry_delay_def)
next
  case (Some j)
  then show ?thesis
    by (cases j) (simp_all add: retry_delay_def split: sum.splits)
qed

lemma retry_delay_given:
  assumes "dget_default j ''retry_after'' (JInt 2) = JFloat (Fin m e)"
  shows "retry_delay pf (Some (JObj j))
           = max 1 (if 0 \<le> e then m * 2 ^ nat e else - ((- m) div 2 ^ nat (- e)))"
  using assms by (simp add: retry_delay_def)

text \<open>One chunk: a rate-limit response is followed by one sleep and one retry; any
  other error response is logged and the function returns.\<close>

lemma send_one_chunk:
  shows "net k = HttpFail 429 body \<Longrightarrow> net (k + 1) = Ok \<Longrightarrow>
           send_chunks pf net k [c] = ([Post c, Sleep (retry_delay pf body), Post c], Inr ())"
    and "net k = HttpFail code body \<Longrightarrow> code \<noteq> 429 \<Longrightarrow>
           send_chunks pf net k (c # cs) = ([Post c, Log code], Inr ())"
    and "net k = HttpFail 429 body \<Longrightarrow> net (k + 1) = HttpFail code2 body2 \<Longrightarrow>
           send_chunks pf net k (c # cs)
             = ([Post c, Sleep (retry_delay pf body), Post c], Inl (HTTPError code2))"
  by (simp_all add: then_events_def)

text \<open>
  Claim C9. No delivery failure is to abort the run: a rate-limit response is retried
  once after the delay, any other failure is logged, and the run exits with success.
  The retry stands outside the \<open>try\<close>: when the retry is answered by an error too (here
  a second 429, after the one sleep of \<open>max(1, ceil(0.3)) = 1\<close>), the \<open>HTTPError\<close> leaves
  \<open>discord_post\<close> and \<open>main\<close>, and the run does not return 0. So does an exception of
  \<open>urlopen\<close> that is not an \<open>HTTPError\<close>. With one 429 followed by a success, and with a
  403, the run returns 0.
\<close>

theorem C9_failed_retry_aborts_run:
  "discord_post pf_none
     (\<lambda>k. HttpFail 429 (Some (JObj [(''retry_after'', JFloat (round_ratio 3 10))]))) ''hello''
     = ([Post ''hello'', Sleep 1, Post ''hello''], Inl (HTTPError 429))
   \<and> deliver_and_exit pf_none
       (\<lambda>k. HttpFail 429 (Some (JObj [(''retry_after'', JFloat (round_ratio 3 10))]))) ''hello''
       = Inl (HTTPError 429)
   \<and> deliver_and_exit pf_none (\<lambda>k. ConnFail) ''hello'' = Inl URLError
   \<and> deliver_and_exit pf_none
       (\<lambda>k. if k = 0 then HttpFail 429 (Some (JObj [(''retry_after'', JFloat (round_ratio 3 10))]))
             else Ok) ''hello''
       = Inr 0
   \<and> discord_post pf_none (\<lambda>k. HttpFail 403 None) ''hello''
       = ([Post ''hello'', Log 403], Inr ())
   \<and> deliver_and_exit pf_none (\<lambda>k. HttpFail 403 None) ''hello'' = Inr 0"
  by code_simp

theorem C9_witness:
  "deliver_and_exit pf_none
     (\<lambda>k. HttpFail 429 (Some (JObj [(''retry_after'', JFloat (round_ratio 3 10))]))) ''hello''
     \<noteq> Inr 0"
  using C9_failed_retry_aborts_run by simp

end
